theory Spec2Isabelle
  imports Main
begin

section \<open>Strings and numbers of the host language\<close>

text \<open>
  The supervisor is written in TypeScript.  Strings are modelled as \<^typ>\<open>string\<close>,
  port numbers and exit codes as \<^typ>\<open>nat\<close>.  The few library functions the source
  calls on strings are modelled here: number-to-string conversion (string
  concatenation with a number), \<^verbatim>\<open>parseInt(_, 10)\<close> on a string of digits,
  ASCII case folding (the \<^verbatim>\<open>i\<close> flag of the regular expressions), and the \<^verbatim>\<open>port\<close>
  component of Node's \<^verbatim>\<open>url.parse\<close>.
\<close>

definition digit_char :: "nat \<Rightarrow> char" where
  "digit_char d = ''0123456789'' ! d"

fun show_nat :: "nat \<Rightarrow> string" where
  "show_nat n =
     (if n < 10 then [digit_char n] else show_nat (n div 10) @ [digit_char (n mod 10)])"

declare show_nat.simps [simp del]

definition is_digit :: "char \<Rightarrow> bool" where
  "is_digit c = (c \<in> set ''0123456789'')"

definition digit_val :: "char \<Rightarrow> nat" where
  "digit_val c =
     (case map_of (zip ''0123456789'' [0, 1, 2, 3, 4, 5, 6, 7, 8, 9]) c of
        None \<Rightarrow> 0 | Some d \<Rightarrow> d)"

definition parseInt10 :: "string \<Rightarrow> nat" where
  "parseInt10 ds = foldl (\<lambda>a c. 10 * a + digit_val c) 0 ds"

definition toLowerCase_char :: "char \<Rightarrow> char" where
  "toLowerCase_char c =
     (case map_of (zip ''ABCDEFGHIJKLMNOPQRSTUVWXYZ'' ''abcdefghijklmnopqrstuvwxyz'') c of
        None \<Rightarrow> c | Some l \<Rightarrow> l)"

definition toLowerCase :: "string \<Rightarrow> string" where
  "toLowerCase s = map toLowerCase_char s"

text \<open>
  \<^verbatim>\<open>url.parse(u).port\<close> for a \<^verbatim>\<open>u\<close> of the shape \<^verbatim>\<open>"http://" + address\<close>, the only
  shape the supervisor passes.  Node's parser takes the text after the two slashes up
  to the first of \<^verbatim>\<open>/ ? #\<close> (a backslash counts as a slash), drops everything up to the
  last \<^verbatim>\<open>@\<close> in it (the credentials), cuts the host at the first character that cannot be part of a host,
  and reads the port off the end of the host with the pattern \<^verbatim>\<open>/:[0-9]*$/\<close>; a lone
  colon gives no port.  The result is the string of digits, or nothing.
\<close>

definition hostEndingChars :: "char list" where
  "hostEndingChars = [CHR ''/'', CHR ''?'', CHR ''#'', CHR 0x5C]"

definition nonHostChars :: "char list" where
  "nonHostChars =
     [CHR ''<'', CHR ''>'', CHR 0x22, CHR ''`'', CHR '' '', CHR 0x0D, CHR 0x0A, CHR 0x09,
      CHR ''{'', CHR ''}'', CHR ''|'', CHR 0x5C, CHR ''^'', CHR 0x27,
      CHR ''%'', CHR ''/'', CHR ''?'', CHR '';'', CHR ''#'']"

definition after_last_at :: "string \<Rightarrow> string" where
  "after_last_at s =
     (if CHR ''@'' \<in> set s then rev (takeWhile (\<lambda>c. c \<noteq> CHR ''@'') (rev s)) else s)"

definition url_port :: "string \<Rightarrow> string option" where
  "url_port u =
     (if take 7 u = ''http://'' then
        (let rest = drop 7 u;
             authority = takeWhile (\<lambda>c. c \<notin> set hostEndingChars) rest;
             hostport = takeWhile (\<lambda>c. c \<notin> set nonHostChars) (after_last_at authority);
             digits = rev (takeWhile is_digit (rev hostport));
             front = take (length hostport - length digits) hostport
         in if front \<noteq> [] \<and> last front = CHR '':'' \<and> digits \<noteq> []
            then Some digits else None)
      else None)"

section \<open>The configuration document\<close>

text \<open>
  The configuration is a tree of JavaScript objects.  The constructor copies only the
  top-level object (\<^verbatim>\<open>Object.assign({}, sourceConfig)\<close>), so the arrays and objects
  below it are shared with the caller's document.  They therefore live in an explicit
  store, addressed by \<^typ>\<open>nat\<close>; an object's field that refers to another object
  holds its address.
\<close>

type_synonym addr = nat

record ExtensionsConfig =
  strip :: "string list option"
  blacklist :: "string list option"

record FrontendParams =
  extensions :: "ExtensionsConfig option"

record FrontendConfig =
  fe_extensions :: "ExtensionsConfig option"
  fe_host :: string
  fe_endpoint :: string
  fe_port :: nat

record OriginParams =
  requestTimeout :: "string option"
  maxConcurrentRequests :: "nat option"
  supportsBatch :: "bool option"

text \<open>The object under \<^verbatim>\<open>origin.http\<close>.\<close>

record HttpOrigin =
  url :: string
  headerSecret :: string

text \<open>
  An origin object.  \<^verbatim>\<open>og_http\<close> is the address of its \<^verbatim>\<open>http\<close> object, or \<open>None\<close>
  when \<^verbatim>\<open>typeof origin.http\<close> is not \<^verbatim>\<open>'object'\<close> (an origin with another transport);
  \<^verbatim>\<open>og_extra\<close> holds whatever further fields the object carries.
\<close>

record OriginConfig =
  og_params :: OriginParams
  og_http :: "addr option"
  og_extra :: "(string \<times> string) list"

record AccessLogConfig =
  al_destination :: string
  al_requestHeaders :: "string list option"
  al_responseHeaders :: "string list option"

record LoggingConfig =
  lg_level :: "string option"
  lg_request :: "AccessLogConfig option"
  lg_query :: "AccessLogConfig option"
  lg_format :: "string option"
  lg_destination :: "string option"

text \<open>
  The top-level object of a configuration document as the caller hands it over.
  \<^verbatim>\<open>origins\<close>, \<^verbatim>\<open>frontends\<close> and \<^verbatim>\<open>logging\<close> are optional references into the
  store; \<^verbatim>\<open>ec_rest\<close> stands for the fields the supervisor never looks at
  (\<^verbatim>\<open>stores\<close>, \<^verbatim>\<open>sessionAuth\<close>, \<^verbatim>\<open>reporting\<close>, \<^verbatim>\<open>queryCache\<close>).
\<close>

record EngineConfig =
  ec_apiKey :: string
  ec_origins :: "addr option"
  ec_frontends :: "addr option"
  ec_logging :: "addr option"
  ec_rest :: "(string \<times> string) list"

text \<open>
  \<^verbatim>\<open>this.engineConfig\<close> once the constructor has run: by then \<^verbatim>\<open>frontends\<close>,
  \<^verbatim>\<open>origins\<close> and \<^verbatim>\<open>logging\<close> have all been assigned, which is what the
  \<^verbatim>\<open>logging!\<close> assertions of \<^verbatim>\<open>spawnChild\<close> rely on.
\<close>

record AssembledConfig =
  ac_apiKey :: string
  ac_origins :: addr
  ac_frontends :: addr
  ac_logging :: addr
  ac_rest :: "(string \<times> string) list"

record store =
  frontend_arrays :: "addr \<Rightarrow> FrontendConfig list"
  origin_arrays :: "addr \<Rightarrow> addr list"
  origin_objs :: "addr \<Rightarrow> OriginConfig"
  http_objs :: "addr \<Rightarrow> HttpOrigin"
  logging_objs :: "addr \<Rightarrow> LoggingConfig"
  next_addr :: addr

text \<open>
  What \<^verbatim>\<open>JSON.stringify(this.engineConfig)\<close> serialises: the document as a value, read
  through the store at the moment of the call.  The text itself (and the line break
  appended to it) is not modelled; two documents are the same text exactly when they
  are the same value.
\<close>

record OriginDoc =
  od_params :: OriginParams
  od_http :: "HttpOrigin option"
  od_extra :: "(string \<times> string) list"

record ConfigDoc =
  cd_apiKey :: string
  cd_origins :: "OriginDoc list"
  cd_frontends :: "FrontendConfig list"
  cd_logging :: LoggingConfig
  cd_rest :: "(string \<times> string) list"

definition origin_doc :: "store \<Rightarrow> addr \<Rightarrow> OriginDoc" where
  "origin_doc st r =
     \<lparr>od_params = og_params (origin_objs st r),
      od_http = map_option (http_objs st) (og_http (origin_objs st r)),
      od_extra = og_extra (origin_objs st r)\<rparr>"

definition origins_doc :: "store \<Rightarrow> addr \<Rightarrow> OriginDoc list" where
  "origins_doc st a = map (origin_doc st) (origin_arrays st a)"

definition stringify :: "store \<Rightarrow> AssembledConfig \<Rightarrow> ConfigDoc" where
  "stringify st c =
     \<lparr>cd_apiKey = ac_apiKey c,
      cd_origins = origins_doc st (ac_origins c),
      cd_frontends = frontend_arrays st (ac_frontends c),
      cd_logging = logging_objs st (ac_logging c),
      cd_rest = ac_rest c\<rparr>"

section \<open>The constructor\<close>

datatype config_source = Document EngineConfig | Path string

record SideloadConfig =
  sc_engineConfig :: config_source
  sc_endpoint :: "string option"
  sc_graphqlPort :: "nat option"
  sc_dumpTraffic :: "bool option"
  sc_startupTimeout :: "nat option"
  sc_origin :: "OriginParams option"
  sc_frontend :: "FrontendParams option"

text \<open>
  What the constructor reads from its surroundings: the configuration file behind a
  path (\<open>None\<close> when \<^verbatim>\<open>readFileSync\<close> or \<^verbatim>\<open>JSON.parse\<close> throws; the objects of a
  parsed document are taken to be in the store already), \<^verbatim>\<open>process.env.PORT\<close> as
  \<^verbatim>\<open>isFinite\<close> and \<^verbatim>\<open>parseInt\<close> read it (\<open>None\<close> when \<^verbatim>\<open>isFinite\<close> rejects it), the
  bytes of \<^verbatim>\<open>randomBytes(48)\<close> in hexadecimal, and \<^verbatim>\<open>process.platform\<close>.
\<close>

record environment =
  env_readConfig :: "string \<Rightarrow> EngineConfig option"
  env_PORT :: "nat option"
  env_randomHex :: string
  env_platform :: string

datatype error = Error string | LoadError

text \<open>The handle in \<^verbatim>\<open>this.child\<close>.  The constructor never assigns the field, so it
  is \<^verbatim>\<open>undefined\<close> until the first spawn; \<^verbatim>\<open>null\<close> is what \<^verbatim>\<open>stop()\<close> and the startup
  timer store in it.\<close>

datatype child_ref = Undefined | Null | Child nat

datatype level_filter = WarnUp | ErrorUp | FatalOnly

text \<open>A decoded log record.  The handler looks at three fields; each is a string or
  is absent.\<close>

record LogRecord =
  msg :: "string option"
  address :: "string option"
  level :: "string option"

text \<open>One spawned process: the variables its \<^verbatim>\<open>spawnChild\<close> closure holds
  (\<^verbatim>\<open>logLevel\<close>, \<^verbatim>\<open>logLevelFilter\<close>), the documents written to its standard input, the
  \<^verbatim>\<open>kill\<close> calls made on its handle, and whether its \<^verbatim>\<open>exit\<close> event has been
  delivered.\<close>

record child_process =
  logLevel :: "string option"
  logLevelFilter :: "level_filter option"
  stdin :: "ConfigDoc list"
  kills :: "string list"
  exited :: bool

datatype timer_action = CancelStart nat | LiftFilter nat

datatype timer_status = Armed | Cleared | Fired

record timer =
  t_delay :: nat
  t_action :: timer_action
  t_status :: timer_status

datatype 'a promise = Pending | Resolved 'a | Rejected string

text \<open>One call of \<^verbatim>\<open>start()\<close>: its promise and the timer its \<^verbatim>\<open>'start'\<close> listener
  clears.\<close>

record start_gate =
  g_timer :: nat
  g_promise :: "nat promise"

text \<open>One call of \<^verbatim>\<open>stop()\<close>: the process whose exit it waits for, and its promise.\<close>

record stop_gate =
  sg_child :: child_ref
  sg_promise :: "unit promise"

text \<open>
  The supervisor object together with what it acts on.  The first group is the fields
  of \<^verbatim>\<open>Engine\<close> and of its \<^verbatim>\<open>MiddlewareParams\<close>; the second is the store, the
  processes spawned so far (a process's number is its position), the timers set so
  far, the promises handed out, the \<^verbatim>\<open>'error'\<close> events emitted, and the two console
  streams.
\<close>

record state =
  running :: bool
  child :: child_ref
  graphqlPort :: nat
  binary :: string
  engineConfig :: AssembledConfig
  startupTimeout :: nat
  originParams :: OriginParams
  frontendParams :: FrontendParams
  mp_endpoint :: string
  mp_psk :: string
  mp_uri :: string
  mp_dumpTraffic :: bool
  heap :: store
  procs :: "child_process list"
  timers :: "timer list"
  starts :: "start_gate list"
  stops :: "stop_gate list"
  error_events :: "string list"
  console_log :: "LogRecord list"
  console_error :: "string list"

definition truthy_string :: "string option \<Rightarrow> bool" where
  "truthy_string s = (case s of None \<Rightarrow> False | Some x \<Rightarrow> x \<noteq> [])"

definition or_string :: "string option \<Rightarrow> string \<Rightarrow> string" where
  "or_string s d = (case s of None \<Rightarrow> d | Some x \<Rightarrow> if x = [] then d else x)"

definition or_nat :: "nat option \<Rightarrow> nat \<Rightarrow> nat" where
  "or_nat n d = (case n of None \<Rightarrow> d | Some k \<Rightarrow> if k = 0 then d else k)"

definition show_undefined :: "string option \<Rightarrow> string" where
  "show_undefined s = (case s of None \<Rightarrow> ''undefined'' | Some x \<Rightarrow> x)"

definition empty_OriginParams :: OriginParams where
  "empty_OriginParams =
     \<lparr>requestTimeout = None, maxConcurrentRequests = None, supportsBatch = None\<rparr>"

definition empty_FrontendParams :: FrontendParams where
  "empty_FrontendParams = \<lparr>extensions = None\<rparr>"

definition empty_LoggingConfig :: LoggingConfig where
  "empty_LoggingConfig =
     \<lparr>lg_level = None, lg_request = None, lg_query = None, lg_format = None,
      lg_destination = None\<rparr>"

definition missing_port_message :: string where
  "missing_port_message =
     ''Neither 'graphqlPort' nor process.env.PORT is set. '' @
     ''In order for Apollo Engine to act as a proxy for your GraphQL server, '' @
     ''it needs to know which port your GraphQL server is listening on (this is '' @
     ''the port number that comes before '/graphql'). If you see this error, you '' @
     ''should make sure to add e.g. 'graphqlPort: 1234' wherever you call new Engine(...).''"

text \<open>Lines 147--160: the port of the GraphQL server.\<close>

definition choose_graphqlPort :: "nat option \<Rightarrow> nat option \<Rightarrow> error + nat" where
  "choose_graphqlPort given env_port =
     (case given of
        Some p \<Rightarrow> if p \<noteq> 0 then Inr p
                  else (case env_port of Some q \<Rightarrow> Inr q | None \<Rightarrow> Inl (Error missing_port_message))
      | None \<Rightarrow> (case env_port of Some q \<Rightarrow> Inr q | None \<Rightarrow> Inl (Error missing_port_message)))"

text \<open>Lines 162--172: the injected frontend is pushed onto the array the document
  already has, or becomes a new one-element array.\<close>

definition inject_frontend :: "store \<Rightarrow> addr option \<Rightarrow> FrontendConfig \<Rightarrow> addr \<times> store" where
  "inject_frontend st fr frontend =
     (case fr of
        None \<Rightarrow>
          (next_addr st,
           st\<lparr>frontend_arrays := (frontend_arrays st)(next_addr st := [frontend]),
              next_addr := next_addr st + 1\<rparr>)
      | Some a \<Rightarrow>
          (a, st\<lparr>frontend_arrays := (frontend_arrays st)(a := frontend_arrays st a @ [frontend])\<rparr>))"

text \<open>Lines 185--191: the body of the \<^verbatim>\<open>forEach\<close> over existing origins.\<close>

definition extend_origin :: "string \<Rightarrow> store \<Rightarrow> addr \<Rightarrow> store" where
  "extend_origin psk st r =
     (case og_http (origin_objs st r) of
        None \<Rightarrow> st
      | Some h \<Rightarrow> st\<lparr>http_objs := (http_objs st)(h := (http_objs st h)\<lparr>headerSecret := psk\<rparr>)\<rparr>)"

text \<open>Line 177: the URL of the synthetic origin.\<close>

definition synthetic_url :: "nat \<Rightarrow> string \<Rightarrow> string" where
  "synthetic_url gport endpoint = ''http://127.0.0.1:'' @ show_nat gport @ endpoint"

text \<open>Lines 174--192.\<close>

definition inject_origins ::
  "store \<Rightarrow> addr option \<Rightarrow> OriginParams \<Rightarrow> string \<Rightarrow> string \<Rightarrow> addr \<times> store" where
  "inject_origins st orr params origin_url psk =
     (case orr of
        None \<Rightarrow>
          (let h = next_addr st; r = next_addr st + 1; a = next_addr st + 2
           in (a,
               st\<lparr>http_objs := (http_objs st)(h := \<lparr>url = origin_url, headerSecret = psk\<rparr>),
                  origin_objs := (origin_objs st)
                     (r := \<lparr>og_params = params, og_http = Some h, og_extra = []\<rparr>),
                  origin_arrays := (origin_arrays st)(a := [r]),
                  next_addr := next_addr st + 3\<rparr>))
      | Some a \<Rightarrow> (a, foldl (extend_origin psk) st (origin_arrays st a)))"

text \<open>Lines 194--206: the warnings, then format and destination are forced.\<close>

definition logging_warnings :: "LoggingConfig \<Rightarrow> string list" where
  "logging_warnings l =
     (if truthy_string (lg_format l) \<and> lg_format l \<noteq> Some ''JSON''
      then [''Invalid logging format: '' @ show_undefined (lg_format l) @ '', overridden to JSON.'']
      else []) @
     (if truthy_string (lg_destination l) \<and> lg_destination l \<noteq> Some ''STDOUT''
      then [''Invalid logging destination: '' @ show_undefined (lg_format l) @
            '', overridden to STDOUT.'']
      else [])"

definition force_logging :: "store \<Rightarrow> addr option \<Rightarrow> (addr \<times> string list) \<times> store" where
  "force_logging st lg =
     (let (a, warnings, st1) =
            (case lg of
               None \<Rightarrow>
                 (next_addr st, [],
                  st\<lparr>logging_objs := (logging_objs st)(next_addr st := empty_LoggingConfig),
                     next_addr := next_addr st + 1\<rparr>)
             | Some a \<Rightarrow> (a, logging_warnings (logging_objs st a), st))
      in ((a, warnings),
          st1\<lparr>logging_objs := (logging_objs st1)
                 (a := (logging_objs st1 a)\<lparr>lg_format := Some ''JSON'',
                                            lg_destination := Some ''STDOUT''\<rparr>)\<rparr>))"

text \<open>Lines 208--224.\<close>

definition resolve_binary :: "string \<Rightarrow> error + string" where
  "resolve_binary platform =
     (if platform = ''darwin'' then Inr ''apollo-engine-binary-darwin/engineproxy_darwin_amd64''
      else if platform = ''linux'' then Inr ''apollo-engine-binary-linux/engineproxy_linux_amd64''
      else if platform = ''win32''
      then Inr ''apollo-engine-binary-windows/engineproxy_windows_amd64.exe''
      else Inl (Error ''Unsupported platform''))"

text \<open>Lines 132--135: a path is read and parsed, a document is taken as it is.\<close>

definition load_config :: "environment \<Rightarrow> config_source \<Rightarrow> EngineConfig option" where
  "load_config env src = (case src of Document d \<Rightarrow> Some d | Path p \<Rightarrow> env_readConfig env p)"

text \<open>
  Modelled from the spec: the \<^verbatim>\<open>uri\<close> of \<^verbatim>\<open>new MiddlewareParams()\<close>.  The class is
  declared in the middleware module, which is not among the sources; the spec describes
  \<^verbatim>\<open>uri\<close> as ``the live base URL of the running child, empty when no child is
  reachable'', so a new object has the empty \<^verbatim>\<open>uri\<close>.
\<close>

definition new_uri :: string where
  "new_uri = []"

text \<open>
  The constructor (lines 126--225).  It either throws, leaving behind the store as
  it was at the throw, or yields the new supervisor.  \<^verbatim>\<open>this.child\<close> is not assigned.
\<close>

definition Engine_new ::
  "environment \<Rightarrow> store \<Rightarrow> SideloadConfig \<Rightarrow> (error \<times> store) + state" where
  "Engine_new env st sideloadConfig =
     (case load_config env (sc_engineConfig sideloadConfig) of
        None \<Rightarrow> Inl (LoadError, st)
      | Some sourceConfig \<Rightarrow>
          (let endpoint = or_string (sc_endpoint sideloadConfig) ''/graphql'';
               psk = env_randomHex env;
               oparams = (case sc_origin sideloadConfig of None \<Rightarrow> empty_OriginParams | Some p \<Rightarrow> p);
               fparams = (case sc_frontend sideloadConfig of None \<Rightarrow> empty_FrontendParams | Some p \<Rightarrow> p)
           in case choose_graphqlPort (sc_graphqlPort sideloadConfig) (env_PORT env) of
                Inl e \<Rightarrow> Inl (e, st)
              | Inr gport \<Rightarrow>
                  (let frontend = \<lparr>fe_extensions = extensions fparams, fe_host = ''127.0.0.1'',
                                   fe_endpoint = endpoint, fe_port = 0\<rparr>;
                       (fa, st1) = inject_frontend st (ec_frontends sourceConfig) frontend;
                       (oa, st2) = inject_origins st1 (ec_origins sourceConfig) oparams
                                     (synthetic_url gport endpoint) psk;
                       ((la, warnings), st3) = force_logging st2 (ec_logging sourceConfig)
                   in case resolve_binary (env_platform env) of
                        Inl e \<Rightarrow> Inl (e, st3)
                      | Inr bin \<Rightarrow>
                          Inr \<lparr>running = False,
                               child = Undefined,
                               graphqlPort = gport,
                               binary = bin,
                               engineConfig =
                                 \<lparr>ac_apiKey = ec_apiKey sourceConfig, ac_origins = oa,
                                  ac_frontends = fa, ac_logging = la,
                                  ac_rest = ec_rest sourceConfig\<rparr>,
                               startupTimeout = or_nat (sc_startupTimeout sideloadConfig) 1000,
                               originParams = oparams,
                               frontendParams = fparams,
                               mp_endpoint = endpoint,
                               mp_psk = psk,
                               mp_uri = new_uri,
                               mp_dumpTraffic =
                                 (case sc_dumpTraffic sideloadConfig of None \<Rightarrow> False | Some b \<Rightarrow> b),
                               heap = st3,
                               procs = [],
                               timers = [],
                               starts = [],
                               stops = [],
                               error_events = [],
                               console_log = [],
                               console_error = warnings\<rparr>)))"

section \<open>The supervisor\<close>

subsection \<open>Spawning a child\<close>

text \<open>
  Lines 236--249: the level is matched against \<^verbatim>\<open>/^warn(ing)?$/i\<close>, \<^verbatim>\<open>/^error$/i\<close>
  and \<^verbatim>\<open>/^fatal$/i\<close> in this order; a match selects the filter.
\<close>

definition level_hack :: "string option \<Rightarrow> level_filter option" where
  "level_hack lv =
     (case lv of
        None \<Rightarrow> None
      | Some l \<Rightarrow>
          if l = [] then None
          else if toLowerCase l = ''warn'' \<or> toLowerCase l = ''warning'' then Some WarnUp
          else if toLowerCase l = ''error'' then Some ErrorUp
          else if toLowerCase l = ''fatal'' then Some FatalOnly
          else None)"

text \<open>The three filters \<^verbatim>\<open>/^(warn(ing)?|error|fatal)$/\<close>, \<^verbatim>\<open>/^(error|fatal)$/\<close> and
  \<^verbatim>\<open>/^fatal$/\<close>, which are case-sensitive.\<close>

fun matches_filter :: "level_filter \<Rightarrow> string \<Rightarrow> bool" where
  "matches_filter WarnUp l = (l = ''warn'' \<or> l = ''warning'' \<or> l = ''error'' \<or> l = ''fatal'')"
| "matches_filter ErrorUp l = (l = ''error'' \<or> l = ''fatal'')"
| "matches_filter FatalOnly l = (l = ''fatal'')"

text \<open>Line 281: \<^verbatim>\<open>!logLevelFilter || !logRecord.level || logRecord.level.match(logLevelFilter)\<close>.\<close>

definition forwarded :: "level_filter option \<Rightarrow> string option \<Rightarrow> bool" where
  "forwarded flt lv =
     (case flt of
        None \<Rightarrow> True
      | Some f \<Rightarrow> (case lv of None \<Rightarrow> True | Some l \<Rightarrow> l = [] \<or> matches_filter f l))"

text \<open>The assignment \<^verbatim>\<open>this.engineConfig.logging!.level = v\<close>.\<close>

definition set_level :: "string option \<Rightarrow> state \<Rightarrow> state" where
  "set_level v s =
     s\<lparr>heap := (heap s)\<lparr>logging_objs := (logging_objs (heap s))
          (ac_logging (engineConfig s) :=
             (logging_objs (heap s) (ac_logging (engineConfig s)))\<lparr>lg_level := v\<rparr>)\<rparr>\<rparr>"

definition current_level :: "state \<Rightarrow> string option" where
  "current_level s = lg_level (logging_objs (heap s) (ac_logging (engineConfig s)))"

text \<open>
  \<^verbatim>\<open>spawnChild\<close>, lines 233--253 and 295: the level hack, the document, the new
  process, and the first write to its standard input.  The handlers it installs are
  \<open>on_data\<close>, \<open>on_stream_error\<close> and \<open>on_exit\<close> below.
\<close>

definition spawnChild :: "state \<Rightarrow> state" where
  "spawnChild s =
     (let lv = current_level s;
          flt = level_hack lv;
          s1 = (if flt \<noteq> None then set_level (Some ''info'') s else s);
          childConfigJson = stringify (heap s1) (engineConfig s1)
      in s1\<lparr>child := Child (length (procs s1)),
            procs := procs s1 @
              [\<lparr>logLevel = lv, logLevelFilter = flt, stdin = [childConfigJson],
                kills = [], exited = False\<rparr>]\<rparr>)"

subsection \<open>The \<^verbatim>\<open>'start'\<close> event\<close>

definition clear_timer :: "nat \<Rightarrow> timer list \<Rightarrow> timer list" where
  "clear_timer tid ts =
     (if tid < length ts \<and> t_status (ts ! tid) = Armed
      then ts[tid := (ts ! tid)\<lparr>t_status := Cleared\<rparr>] else ts)"

text \<open>Lines 335--339, the listener's effect on its promise; settling a settled
  promise does nothing.\<close>

definition notify_start :: "string \<Rightarrow> start_gate \<Rightarrow> start_gate" where
  "notify_start uri g =
     (case g_promise g of
        Pending \<Rightarrow>
          g\<lparr>g_promise :=
              (case url_port uri of
                 None \<Rightarrow> Rejected ''unknown url''
               | Some d \<Rightarrow> if d = [] then Rejected ''unknown url'' else Resolved (parseInt10 d))\<rparr>
      | _ \<Rightarrow> g)"

text \<open>\<^verbatim>\<open>this.emit('start')\<close>: every listener registered by a \<^verbatim>\<open>start()\<close> call runs.\<close>

definition emit_start :: "state \<Rightarrow> state" where
  "emit_start s =
     s\<lparr>timers := foldl (\<lambda>ts g. clear_timer (g_timer g) ts) (timers s) (starts s),
       starts := map (notify_start (mp_uri s)) (starts s)\<rparr>"

subsection \<open>Log records\<close>

definition add_stdin :: "ConfigDoc \<Rightarrow> child_process \<Rightarrow> child_process" where
  "add_stdin d c = c\<lparr>stdin := stdin c @ [d]\<rparr>"

definition add_kill :: "string \<Rightarrow> child_process \<Rightarrow> child_process" where
  "add_kill sg c = c\<lparr>kills := kills c @ [sg]\<rparr>"

text \<open>Lines 260--278, the branch taken on the readiness record.\<close>

definition on_started :: "nat \<Rightarrow> LogRecord \<Rightarrow> state \<Rightarrow> state" where
  "on_started p r s =
     (let s1 = emit_start (s\<lparr>mp_uri := ''http://'' @ show_undefined (address r)\<rparr>)
      in if logLevelFilter (procs s1 ! p) \<noteq> None then
           (let s2 = set_level (logLevel (procs s1 ! p)) s1;
                childConfigJson = stringify (heap s2) (engineConfig s2)
            in s2\<lparr>procs := (procs s2)[p := add_stdin childConfigJson (procs s2 ! p)],
                  timers := timers s2 @
                    [\<lparr>t_delay = 1000, t_action = LiftFilter p, t_status = Armed\<rparr>]\<rparr>)
         else s1)"

definition is_started :: "LogRecord \<Rightarrow> bool" where
  "is_started r = (msg r = Some ''Started HTTP server.'')"

text \<open>Lines 256--284, the handler of one decoded record of process \<open>p\<close>.\<close>

definition on_data :: "nat \<Rightarrow> LogRecord \<Rightarrow> state \<Rightarrow> state" where
  "on_data p r s =
     (let s1 = (if is_started r then on_started p r s else s)
      in if forwarded (logLevelFilter (procs s1 ! p)) (level r)
         then s1\<lparr>console_log := console_log s1 @ [r]\<rparr> else s1)"

text \<open>Lines 286--289: output that is not JSON goes to the error console.\<close>

definition on_stream_error :: "nat \<Rightarrow> string \<Rightarrow> state \<Rightarrow> state" where
  "on_stream_error p buffer s = s\<lparr>console_error := console_error s @ [buffer]\<rparr>"

subsection \<open>Exit of a process\<close>

text \<open>Lines 372--374: the listener a \<^verbatim>\<open>stop()\<close> call put on the process.\<close>

definition settle_stop :: "nat \<Rightarrow> stop_gate \<Rightarrow> stop_gate" where
  "settle_stop p g =
     (if sg_child g = Child p \<and> sg_promise g = Pending then g\<lparr>sg_promise := Resolved ()\<rparr> else g)"

definition crash_messages :: "nat option \<Rightarrow> string option \<Rightarrow> string list" where
  "crash_messages code signal =
     (case code of None \<Rightarrow> [] | Some c \<Rightarrow> [''Engine crashed unexpectedly with code: '' @ show_nat c]) @
     (case signal of None \<Rightarrow> []
      | Some sg \<Rightarrow> [''Engine was killed unexpectedly by signal: '' @ sg])"

text \<open>Lines 298--318, with the process marked as gone and the \<^verbatim>\<open>stop()\<close> listeners
  run.\<close>

definition on_exit :: "nat \<Rightarrow> nat option \<Rightarrow> string option \<Rightarrow> state \<Rightarrow> state" where
  "on_exit p code signal s =
     (let s1 = s\<lparr>mp_uri := [],
                 procs := (procs s)[p := (procs s ! p)\<lparr>exited := True\<rparr>],
                 stops := map (settle_stop p) (stops s)\<rparr>
      in if \<not> running s1 then s1
         else if code = Some 78
         then s1\<lparr>error_events := error_events s1 @
                   [''Engine crashed due to invalid configuration.'']\<rparr>
         else spawnChild
                (s1\<lparr>console_error := console_error s1 @ crash_messages code signal\<rparr>))"

subsection \<open>Timers\<close>

text \<open>Lines 324--331, the body of the startup timer of the \<open>g\<close>-th \<^verbatim>\<open>start()\<close> call.\<close>

definition reject_start :: "start_gate \<Rightarrow> start_gate" where
  "reject_start g =
     (case g_promise g of Pending \<Rightarrow> g\<lparr>g_promise := Rejected ''timed out''\<rparr> | _ \<Rightarrow> g)"

definition startup_timeout :: "nat \<Rightarrow> state \<Rightarrow> state" where
  "startup_timeout g s =
     (let s1 = s\<lparr>running := False\<rparr>;
          s2 = (case child s1 of
                  Child p \<Rightarrow> s1\<lparr>procs := (procs s1)[p := add_kill ''SIGKILL'' (procs s1 ! p)],
                                child := Null\<rparr>
                | _ \<Rightarrow> s1)
      in s2\<lparr>starts := (starts s2)[g := reject_start (starts s2 ! g)]\<rparr>)"

text \<open>A timer runs its body once, and only if it has not been cleared.  Lines
  274--276 are the body of the grace timer.\<close>

definition on_timer :: "nat \<Rightarrow> state \<Rightarrow> state" where
  "on_timer tid s =
     (if tid < length (timers s) \<and> t_status (timers s ! tid) = Armed then
        (let s1 = s\<lparr>timers := (timers s)[tid := (timers s ! tid)\<lparr>t_status := Fired\<rparr>]\<rparr>
         in case t_action (timers s ! tid) of
              CancelStart g \<Rightarrow> startup_timeout g s1
            | LiftFilter p \<Rightarrow>
                s1\<lparr>procs := (procs s1)[p := (procs s1 ! p)\<lparr>logLevelFilter := None\<rparr>]\<rparr>)
      else s)"

subsection \<open>\<^verbatim>\<open>start()\<close> and \<^verbatim>\<open>stop()\<close>\<close>

text \<open>Lines 227--342.\<close>

definition start :: "state \<Rightarrow> error + state" where
  "start s =
     (if running s then Inl (Error ''Only call start() on an engine object once'')
      else
        (let s1 = spawnChild (s\<lparr>running := True\<rparr>)
         in Inr (s1\<lparr>timers := timers s1 @
                       [\<lparr>t_delay = startupTimeout s1,
                         t_action = CancelStart (length (starts s1)),
                         t_status = Armed\<rparr>],
                     starts := starts s1 @
                       [\<lparr>g_timer = length (timers s1), g_promise = Pending\<rparr>]\<rparr>)))"

text \<open>
  Lines 364--377.  With \<^verbatim>\<open>this.child\<close> still \<^verbatim>\<open>undefined\<close> the test against \<^verbatim>\<open>null\<close>
  fails, the fields are assigned, and \<^verbatim>\<open>childRef.on\<close> throws inside the promise's
  executor, which rejects the promise.
\<close>

definition stop :: "state \<Rightarrow> error + state" where
  "stop s =
     (case child s of
        Null \<Rightarrow> Inl (Error ''No engine instance running...'')
      | Undefined \<Rightarrow>
          Inr (s\<lparr>child := Null, running := False,
                 stops := stops s @ [\<lparr>sg_child = Undefined, sg_promise = Rejected ''TypeError''\<rparr>]\<rparr>)
      | Child p \<Rightarrow>
          Inr (s\<lparr>child := Null, running := False,
                 procs := (procs s)[p := add_kill ''SIGTERM'' (procs s ! p)],
                 stops := stops s @ [\<lparr>sg_child = Child p, sg_promise = Pending\<rparr>]\<rparr>))"

subsection \<open>Events\<close>

text \<open>
  Everything that happens to a supervisor: a call of \<^verbatim>\<open>start()\<close> or \<^verbatim>\<open>stop()\<close>, a
  decoded record or undecodable output from process \<open>p\<close>, the exit of process \<open>p\<close>
  with its code and signal, and a timer running out.  A call that throws leaves the
  supervisor as it was.
\<close>

datatype event =
    CallStart
  | CallStop
  | Data nat LogRecord
  | StreamError nat string
  | Exit nat "nat option" "string option"
  | TimerFires nat

fun step :: "state \<Rightarrow> event \<Rightarrow> state" where
  "step s CallStart = (case start s of Inl e \<Rightarrow> s | Inr s' \<Rightarrow> s')"
| "step s CallStop = (case stop s of Inl e \<Rightarrow> s | Inr s' \<Rightarrow> s')"
| "step s (Data p r) = (if p < length (procs s) then on_data p r s else s)"
| "step s (StreamError p b) = (if p < length (procs s) then on_stream_error p b s else s)"
| "step s (Exit p code signal) = (if p < length (procs s) then on_exit p code signal s else s)"
| "step s (TimerFires tid) = on_timer tid s"

definition exec :: "state \<Rightarrow> event list \<Rightarrow> state" where
  "exec s evs = foldl step s evs"

text \<open>
  What the surroundings can do.  Output is decoded only from a process that has been
  spawned; it may still arrive after the process's exit has been delivered, because
  the \<^verbatim>\<open>exit\<close> event does not wait for the output streams to be drained.  A process
  exits once, with a code or by a signal, and only a timer that has been set runs out.
\<close>

definition alive :: "state \<Rightarrow> nat \<Rightarrow> bool" where
  "alive s p = (p < length (procs s) \<and> \<not> exited (procs s ! p))"

fun enabled :: "state \<Rightarrow> event \<Rightarrow> bool" where
  "enabled s CallStart = True"
| "enabled s CallStop = True"
| "enabled s (Data p r) = (p < length (procs s))"
| "enabled s (StreamError p b) = (p < length (procs s))"
| "enabled s (Exit p code signal) = (alive s p \<and> (code \<noteq> None \<or> signal \<noteq> None))"
| "enabled s (TimerFires tid) = (tid < length (timers s))"

fun wf_trace :: "state \<Rightarrow> event list \<Rightarrow> bool" where
  "wf_trace s [] = True"
| "wf_trace s (e # evs) = (enabled s e \<and> wf_trace (step s e) evs)"

section \<open>Auxiliary definitions\<close>

text \<open>The process record that \<open>spawnChild\<close> appends.\<close>

definition spawned :: "state \<Rightarrow> child_process" where
  "spawned s =
     \<lparr>logLevel = current_level s, logLevelFilter = level_hack (current_level s),
      stdin = [stringify (heap (spawnChild s)) (engineConfig s)], kills = [], exited = False\<rparr>"

text \<open>
  A concrete supervisor for the examples: a Linux host whose \<^verbatim>\<open>PORT\<close> is 3000, and a
  document with a \<^verbatim>\<open>logging\<close> object (at address 0) that asks for level \<^verbatim>\<open>error\<close> and
  has neither origins nor frontends.
\<close>

definition blank_store :: store where
  "blank_store =
     \<lparr>frontend_arrays = (\<lambda>_. []), origin_arrays = (\<lambda>_. []),
      origin_objs = (\<lambda>_. \<lparr>og_params = empty_OriginParams, og_http = None, og_extra = []\<rparr>),
      http_objs = (\<lambda>_. \<lparr>url = [], headerSecret = []\<rparr>),
      logging_objs = (\<lambda>_. empty_LoggingConfig), next_addr = 0\<rparr>"

definition demo_env :: environment where
  "demo_env =
     \<lparr>env_readConfig = (\<lambda>_. None), env_PORT = Some 3000,
      env_randomHex = ''c0ffee'', env_platform = ''linux''\<rparr>"

definition error_store :: store where
  "error_store =
     blank_store\<lparr>logging_objs :=
        (logging_objs blank_store)(0 := empty_LoggingConfig\<lparr>lg_level := Some ''error''\<rparr>),
        next_addr := 1\<rparr>"

definition error_sideload :: SideloadConfig where
  "error_sideload =
     \<lparr>sc_engineConfig = Document \<lparr>ec_apiKey = ''key'', ec_origins = None,
         ec_frontends = None, ec_logging = Some 0, ec_rest = []\<rparr>,
      sc_endpoint = None, sc_graphqlPort = None, sc_dumpTraffic = None,
      sc_startupTimeout = None, sc_origin = None, sc_frontend = None\<rparr>"

definition demo :: state where
  "demo = projr (Engine_new demo_env error_store error_sideload)"

text \<open>The readiness record announcing the listening address \<open>a\<close>.\<close>

definition ready_at :: "string \<Rightarrow> LogRecord" where
  "ready_at a = \<lparr>msg = Some ''Started HTTP server.'', address = Some a, level = Some ''info''\<rparr>"

text \<open>
  A second example: a caller's document with one frontend, an HTTP origin that
  carries a secret of its own, and an origin with another transport.
\<close>

definition user_frontend :: FrontendConfig where
  "user_frontend = \<lparr>fe_extensions = None, fe_host = ''0.0.0.0'', fe_endpoint = ''/api'', fe_port = 8080\<rparr>"

definition shared_store :: store where
  "shared_store =
     blank_store\<lparr>frontend_arrays := (frontend_arrays blank_store)(0 := [user_frontend]),
        origin_arrays := (origin_arrays blank_store)(0 := [0, 1]),
        origin_objs := (origin_objs blank_store)
          (0 := \<lparr>og_params = empty_OriginParams, og_http = Some 0, og_extra = []\<rparr>,
           1 := \<lparr>og_params = empty_OriginParams, og_http = None,
                  og_extra = [(''lambda'', ''arn:aws:lambda:fn'')]\<rparr>),
        http_objs := (http_objs blank_store)
          (0 := \<lparr>url = ''http://localhost:4000/graphql'', headerSecret = ''user-secret''\<rparr>),
        next_addr := 2\<rparr>"

definition shared_sideload :: SideloadConfig where
  "shared_sideload =
     \<lparr>sc_engineConfig = Document \<lparr>ec_apiKey = ''key'', ec_origins = Some 0,
         ec_frontends = Some 0, ec_logging = None, ec_rest = []\<rparr>,
      sc_endpoint = None, sc_graphqlPort = Some 4000, sc_dumpTraffic = None,
      sc_startupTimeout = None, sc_origin = None, sc_frontend = None\<rparr>"

definition shared_demo :: state where
  "shared_demo = projr (Engine_new demo_env shared_store shared_sideload)"

text \<open>An origin of the document with the shared secret written into its \<^verbatim>\<open>http\<close>
  object, if it has one.\<close>

definition with_secret :: "string \<Rightarrow> OriginDoc \<Rightarrow> OriginDoc" where
  "with_secret psk od = od\<lparr>od_http := map_option (\<lambda>h. h\<lparr>headerSecret := psk\<rparr>) (od_http od)\<rparr>"

text \<open>The logging level a configuration document carries.\<close>

definition doc_level :: "ConfigDoc \<Rightarrow> string option" where
  "doc_level d = lg_level (cd_logging d)"

text \<open>
  What a sequence of events says about \<^verbatim>\<open>uri\<close>, read off the events alone: the
  process and URI of the latest readiness record, unless an exit has been delivered
  since.
\<close>

fun track_uri :: "(nat \<times> string) option \<Rightarrow> event \<Rightarrow> (nat \<times> string) option" where
  "track_uri u (Data p r) =
     (if is_started r then Some (p, ''http://'' @ show_undefined (address r)) else u)"
| "track_uri u (Exit p code signal) = None"
| "track_uri u e = u"

definition announced :: "event list \<Rightarrow> (nat \<times> string) option" where
  "announced evs = foldl track_uri None evs"

definition uri_tracks :: "(nat \<times> string) option \<Rightarrow> state \<Rightarrow> bool" where
  "uri_tracks a s =
     (case a of
        None \<Rightarrow> mp_uri s = []
      | Some (p, u) \<Rightarrow> mp_uri s = u \<and> u \<noteq> [] \<and> alive s p)"

text \<open>
  The stricter surroundings in which every record is decoded before the exit of the
  process that wrote it is delivered.
\<close>

fun from_live :: "state \<Rightarrow> event \<Rightarrow> bool" where
  "from_live s (Data p r) = alive s p"
| "from_live s e = True"

fun in_order :: "state \<Rightarrow> event list \<Rightarrow> bool" where
  "in_order s [] = True"
| "in_order s (e # evs) = (from_live s e \<and> in_order (step s e) evs)"

text \<open>
  Following the spec's words: the logging levels are ``a fixed enum:
  debug/info/warn/error/fatal'', and a filter matches ``only records at or above the
  user's true requested severity''.  This is the position of a level in that enum.
\<close>

definition levels :: "string list" where
  "levels = [''debug'', ''info'', ''warn'', ''error'', ''fatal'']"

definition severity :: "string \<Rightarrow> nat" where
  "severity l =
     (if l = ''debug'' then 0 else if l = ''info'' then 1 else if l = ''warn'' then 2
      else if l = ''error'' then 3 else 4)"

text \<open>The first example again, for any requested level \<open>l\<close>.\<close>

definition level_store :: "string \<Rightarrow> store" where
  "level_store l =
     blank_store\<lparr>logging_objs :=
        (logging_objs blank_store)(0 := empty_LoggingConfig\<lparr>lg_level := Some l\<rparr>),
        next_addr := 1\<rparr>"

definition demo_at :: "string \<Rightarrow> state" where
  "demo_at l = projr (Engine_new demo_env (level_store l) error_sideload)"

text \<open>An ordinary log record of level \<open>l\<close>.\<close>

definition rec_at :: "string \<Rightarrow> LogRecord" where
  "rec_at l = \<lparr>msg = Some ''request'', address = None, level = Some l\<rparr>"

text \<open>The events of a start-up in which the child does not become ready and the
  application makes no further calls: ordinary records, undecodable output, exits.\<close>

fun quiet :: "event \<Rightarrow> bool" where
  "quiet (Data p r) = (\<not> is_started r)"
| "quiet (StreamError p b) = True"
| "quiet (Exit p code signal) = True"
| "quiet e = False"

text \<open>
  The supervisor between a first \<^verbatim>\<open>start()\<close> and the settling of its promise: the
  flag is set, the one promise is pending, its timer (of delay \<open>T\<close>) is armed, and the
  current child is the last process spawned, the only one that can be alive.
\<close>

definition starting :: "nat \<Rightarrow> state \<Rightarrow> bool" where
  "starting T s =
     (running s \<and>
      starts s = [\<lparr>g_timer = 0, g_promise = Pending\<rparr>] \<and>
      timers s = [\<lparr>t_delay = T, t_action = CancelStart 0, t_status = Armed\<rparr>] \<and>
      procs s \<noteq> [] \<and>
      child s = Child (length (procs s) - 1) \<and>
      (\<forall>p. alive s p \<longrightarrow> p = length (procs s) - 1))"

text \<open>The first \<^verbatim>\<open>start()\<close> call's listener is registered and clears timer 0.\<close>

definition gate0 :: "state \<Rightarrow> bool" where
  "gate0 s = (0 < length (starts s) \<and> g_timer (starts s ! 0) = 0 \<and> 0 < length (timers s))"

text \<open>
  Events that leave the \<^verbatim>\<open>running\<close> flag alone: everything except a call of
  \<^verbatim>\<open>stop()\<close> and the running out of a startup timer.
\<close>

fun keeps_running :: "state \<Rightarrow> event \<Rightarrow> bool" where
  "keeps_running s CallStop = False"
| "keeps_running s (TimerFires t) =
     (t < length (timers s) \<and>
      (case t_action (timers s ! t) of CancelStart g \<Rightarrow> False | LiftFilter p \<Rightarrow> True))"
| "keeps_running s e = True"

fun undisturbed :: "state \<Rightarrow> event list \<Rightarrow> bool" where
  "undisturbed s [] = True"
| "undisturbed s (e # evs) = (keeps_running s e \<and> undisturbed (step s e) evs)"

section \<open>Basic facts about the operations\<close>

lemma set_level_fields [simp]:
  "running (set_level v s) = running s"
  "child (set_level v s) = child s"
  "mp_uri (set_level v s) = mp_uri s"
  "procs (set_level v s) = procs s"
  "timers (set_level v s) = timers s"
  "starts (set_level v s) = starts s"
  "stops (set_level v s) = stops s"
  "error_events (set_level v s) = error_events s"
  "console_log (set_level v s) = console_log s"
  "console_error (set_level v s) = console_error s"
  "engineConfig (set_level v s) = engineConfig s"
  "startupTimeout (set_level v s) = startupTimeout s"
  by (simp_all add: set_level_def)

lemma current_level_set_level [simp]: "current_level (set_level v s) = v"
  by (simp add: set_level_def current_level_def)

lemma spawnChild_fields [simp]:
  "running (spawnChild s) = running s"
  "mp_uri (spawnChild s) = mp_uri s"
  "timers (spawnChild s) = timers s"
  "starts (spawnChild s) = starts s"
  "stops (spawnChild s) = stops s"
  "error_events (spawnChild s) = error_events s"
  "console_log (spawnChild s) = console_log s"
  "console_error (spawnChild s) = console_error s"
  "engineConfig (spawnChild s) = engineConfig s"
  "startupTimeout (spawnChild s) = startupTimeout s"
  "child (spawnChild s) = Child (length (procs s))"
  by (simp_all add: spawnChild_def Let_def)

lemma procs_spawnChild [simp]: "procs (spawnChild s) = procs s @ [spawned s]"
  by (simp add: spawnChild_def spawned_def Let_def)

lemma spawned_fields [simp]:
  "logLevel (spawned s) = current_level s"
  "logLevelFilter (spawned s) = level_hack (current_level s)"
  "kills (spawned s) = []"
  "exited (spawned s) = False"
  by (simp_all add: spawned_def)

lemma Engine_new_initial:
  assumes "Engine_new env st sc = Inr s"
  shows "running s = False" "child s = Undefined" "procs s = []" "timers s = []"
    "starts s = []" "stops s = []" "error_events s = []" "mp_uri s = []"
    "console_log s = []" "startupTimeout s = or_nat (sc_startupTimeout sc) 1000"
    "mp_psk s = env_randomHex env"
  using assms
  by (auto simp: Engine_new_def Let_def new_uri_def split: option.splits sum.splits prod.splits)

lemma demo_constructed: "Engine_new demo_env error_store error_sideload = Inr demo"
  by (simp add: demo_def Engine_new_def load_config_def demo_env_def error_sideload_def choose_graphqlPort_def
      resolve_binary_def Let_def split: prod.splits)

lemmas demo_initial = Engine_new_initial [OF demo_constructed]

lemma demo_level: "current_level demo = Some ''error''"
  by (simp add: demo_def Engine_new_def load_config_def demo_env_def error_sideload_def choose_graphqlPort_def
      resolve_binary_def Let_def current_level_def inject_frontend_def inject_origins_def
      force_logging_def error_store_def blank_store_def empty_LoggingConfig_def
      split: prod.splits)

lemma nth_update_if: "(xs[i := x]) ! j = (if i = j \<and> i < length xs then x else xs ! j)"
  by (cases "i < length xs") (simp_all add: nth_list_update list_update_beyond)

lemma length_clear_timer [simp]: "length (clear_timer t ts) = length ts"
  by (simp add: clear_timer_def)

lemma length_clear_timers [simp]:
  "length (foldl (\<lambda>ts g. clear_timer (g_timer g) ts) ts gs) = length ts"
  by (induction gs arbitrary: ts) simp_all

lemma emit_start_fields [simp]:
  "running (emit_start s) = running s"
  "child (emit_start s) = child s"
  "mp_uri (emit_start s) = mp_uri s"
  "procs (emit_start s) = procs s"
  "stops (emit_start s) = stops s"
  "error_events (emit_start s) = error_events s"
  "console_log (emit_start s) = console_log s"
  "console_error (emit_start s) = console_error s"
  "engineConfig (emit_start s) = engineConfig s"
  "startupTimeout (emit_start s) = startupTimeout s"
  "heap (emit_start s) = heap s"
  "starts (emit_start s) = map (notify_start (mp_uri s)) (starts s)"
  "length (timers (emit_start s)) = length (timers s)"
  by (simp_all add: emit_start_def)

lemma current_level_emit_start [simp]: "current_level (emit_start s) = current_level s"
  by (simp add: current_level_def)

lemma on_started_fields [simp]:
  "running (on_started p r s) = running s"
  "child (on_started p r s) = child s"
  "mp_uri (on_started p r s) = ''http://'' @ show_undefined (address r)"
  "stops (on_started p r s) = stops s"
  "error_events (on_started p r s) = error_events s"
  "console_log (on_started p r s) = console_log s"
  "console_error (on_started p r s) = console_error s"
  "engineConfig (on_started p r s) = engineConfig s"
  "startupTimeout (on_started p r s) = startupTimeout s"
  "starts (on_started p r s) = map (notify_start (''http://'' @ show_undefined (address r))) (starts s)"
  "length (procs (on_started p r s)) = length (procs s)"
  by (simp_all add: on_started_def Let_def)

lemma on_started_proc:
  "procs (on_started p r s) =
     (if logLevelFilter (procs s ! p) \<noteq> None
      then (procs s)[p := add_stdin (stringify (heap (on_started p r s)) (engineConfig s)) (procs s ! p)]
      else procs s)"
  by (simp add: on_started_def Let_def)

lemma add_stdin_fields [simp]:
  "exited (add_stdin d c) = exited c"
  "logLevel (add_stdin d c) = logLevel c"
  "logLevelFilter (add_stdin d c) = logLevelFilter c"
  "kills (add_stdin d c) = kills c"
  "stdin (add_stdin d c) = stdin c @ [d]"
  by (simp_all add: add_stdin_def)

lemma add_kill_fields [simp]:
  "exited (add_kill k c) = exited c"
  "logLevel (add_kill k c) = logLevel c"
  "logLevelFilter (add_kill k c) = logLevelFilter c"
  "kills (add_kill k c) = kills c @ [k]"
  "stdin (add_kill k c) = stdin c"
  by (simp_all add: add_kill_def)

lemma on_started_proc_fields [simp]:
  "exited (procs (on_started p r s) ! q) = exited (procs s ! q)"
  "logLevel (procs (on_started p r s) ! q) = logLevel (procs s ! q)"
  "logLevelFilter (procs (on_started p r s) ! q) = logLevelFilter (procs s ! q)"
  "kills (procs (on_started p r s) ! q) = kills (procs s ! q)"
  by (simp_all add: on_started_proc nth_update_if)

lemma on_data_fields [simp]:
  "running (on_data p r s) = running s"
  "child (on_data p r s) = child s"
  "stops (on_data p r s) = stops s"
  "error_events (on_data p r s) = error_events s"
  "console_error (on_data p r s) = console_error s"
  "engineConfig (on_data p r s) = engineConfig s"
  "startupTimeout (on_data p r s) = startupTimeout s"
  "length (procs (on_data p r s)) = length (procs s)"
  "mp_uri (on_data p r s) = (if is_started r then ''http://'' @ show_undefined (address r) else mp_uri s)"
  "starts (on_data p r s) = (if is_started r then map (notify_start (''http://'' @ show_undefined (address r))) (starts s) else starts s)"
  by (simp_all add: on_data_def Let_def)

lemma on_data_proc_fields [simp]:
  "exited (procs (on_data p r s) ! q) = exited (procs s ! q)"
  "logLevel (procs (on_data p r s) ! q) = logLevel (procs s ! q)"
  "logLevelFilter (procs (on_data p r s) ! q) = logLevelFilter (procs s ! q)"
  "kills (procs (on_data p r s) ! q) = kills (procs s ! q)"
  by (simp_all add: on_data_def Let_def)

lemma url_port_nonempty: "url_port u = Some d \<Longrightarrow> d \<noteq> []"
  by (auto simp: url_port_def Let_def split: if_splits)

lemma notify_start_pending:
  "g_promise g = Pending \<Longrightarrow>
   g_promise (notify_start u g) =
     (case url_port u of None \<Rightarrow> Rejected ''unknown url'' | Some d \<Rightarrow> Resolved (parseInt10 d))"
  by (auto simp: notify_start_def dest: url_port_nonempty split: option.splits)

lemma url_port_example: "url_port ''http://127.0.0.1:54321'' = Some ''54321''"
  by (simp add: url_port_def after_last_at_def hostEndingChars_def nonHostChars_def is_digit_def)

lemma parseInt10_example: "parseInt10 ''54321'' = 54321"
  by (simp add: parseInt10_def digit_val_def)

lemma url_port_undefined: "url_port ''http://undefined'' = None"
  by (simp add: url_port_def after_last_at_def hostEndingChars_def nonHostChars_def is_digit_def)

section \<open>Exit of the child\<close>



section \<open>The readiness record\<close>

text \<open>
  Claim C4.  When a record whose \<^verbatim>\<open>msg\<close> is ``Started HTTP server.'' is decoded from a
  spawned process, \<^verbatim>\<open>uri\<close> becomes \<^verbatim>\<open>"http://"\<close> followed by the record's address, and
  every \<^verbatim>\<open>start()\<close> promise that is still pending is settled: resolved with the port
  parsed from that URI, or rejected with ``unknown url'' when the URI has no port.
  For the address \<^verbatim>\<open>127.0.0.1:54321\<close> the promise resolves with 54321.  Either way
  the record is not handled as a crash: the \<^verbatim>\<open>running\<close> flag, the current child, the
  processes and the \<^verbatim>\<open>'error'\<close> events stay as they were.
\<close>

theorem readiness_settles_start:
  assumes "p < length (procs s)" and "is_started r"
  shows "mp_uri (step s (Data p r)) = ''http://'' @ show_undefined (address r) \<and>
         (\<forall>i<length (starts s). g_promise (starts s ! i) = Pending \<longrightarrow>
            g_promise (starts (step s (Data p r)) ! i) =
              (case url_port (''http://'' @ show_undefined (address r)) of
                 None \<Rightarrow> Rejected ''unknown url''
               | Some d \<Rightarrow> Resolved (parseInt10 d))) \<and>
         (address r = Some ''127.0.0.1:54321'' \<longrightarrow>
            (\<forall>i<length (starts s). g_promise (starts s ! i) = Pending \<longrightarrow>
               g_promise (starts (step s (Data p r)) ! i) = Resolved 54321)) \<and>
         running (step s (Data p r)) = running s \<and>
         child (step s (Data p r)) = child s \<and>
         error_events (step s (Data p r)) = error_events s \<and>
         length (procs (step s (Data p r))) = length (procs s) \<and>
         (\<forall>q. exited (procs (step s (Data p r)) ! q) = exited (procs s ! q))"
  using assms
  by (simp add: notify_start_pending show_undefined_def url_port_example parseInt10_example)

theorem readiness_settles_start_witness:
  "mp_uri (step (step demo CallStart) (Data 0 (ready_at ''127.0.0.1:54321''))) =
     ''http://127.0.0.1:54321'' \<and>
   g_promise (starts (step (step demo CallStart) (Data 0 (ready_at ''127.0.0.1:54321''))) ! 0) =
     Resolved 54321 \<and>
   g_promise (starts (step (step demo CallStart)
       (Data 0 \<lparr>msg = Some ''Started HTTP server.'', address = None, level = None\<rparr>)) ! 0) =
     Rejected ''unknown url''"
  using readiness_settles_start [of 0 "step demo CallStart" "ready_at ''127.0.0.1:54321''"]
    readiness_settles_start [of 0 "step demo CallStart"
      "\<lparr>msg = Some ''Started HTTP server.'', address = None, level = None\<rparr>"]
  by (simp add: start_def demo_initial is_started_def ready_at_def url_port_undefined
      url_port_example parseInt10_example show_undefined_def)

section \<open>The origins of the assembled configuration\<close>

lemma extend_origin_frame [simp]:
  "origin_objs (extend_origin psk st r) = origin_objs st"
  "origin_arrays (extend_origin psk st r) = origin_arrays st"
  "frontend_arrays (extend_origin psk st r) = frontend_arrays st"
  "logging_objs (extend_origin psk st r) = logging_objs st"
  "next_addr (extend_origin psk st r) = next_addr st"
  by (simp_all add: extend_origin_def split: option.splits)

lemma foldl_extend_origin_frame [simp]:
  "origin_objs (foldl (extend_origin psk) st rs) = origin_objs st"
  "origin_arrays (foldl (extend_origin psk) st rs) = origin_arrays st"
  "frontend_arrays (foldl (extend_origin psk) st rs) = frontend_arrays st"
  "logging_objs (foldl (extend_origin psk) st rs) = logging_objs st"
  "next_addr (foldl (extend_origin psk) st rs) = next_addr st"
  by (induction rs arbitrary: st; simp)+

lemma foldl_extend_origin_http:
  "http_objs (foldl (extend_origin psk) st rs) h =
     (if \<exists>r\<in>set rs. og_http (origin_objs st r) = Some h
      then (http_objs st h)\<lparr>headerSecret := psk\<rparr> else http_objs st h)"
proof (induction rs arbitrary: st)
  case Nil
  show ?case by simp
next
  case (Cons r rs)
  show ?case
    by (simp add: Cons.IH) (auto simp: extend_origin_def split: option.splits)
qed

lemma origin_doc_extended:
  assumes "r \<in> set rs"
  shows "origin_doc (foldl (extend_origin psk) st rs) r = with_secret psk (origin_doc st r)"
  using assms
  by (cases "og_http (origin_objs st r)")
     (auto simp: origin_doc_def with_secret_def foldl_extend_origin_http)

lemma origins_doc_extended:
  "origins_doc (foldl (extend_origin psk) st (origin_arrays st a)) a =
     map (with_secret psk) (origins_doc st a)"
  by (simp add: origins_doc_def origin_doc_extended)

lemma inject_frontend_frame:
  "inject_frontend st fr f = (fa, st') \<Longrightarrow>
     origin_objs st' = origin_objs st \<and> origin_arrays st' = origin_arrays st \<and>
     http_objs st' = http_objs st \<and> logging_objs st' = logging_objs st"
  by (auto simp: inject_frontend_def split: option.splits)

lemma force_logging_frame:
  "force_logging st lg = ((la, w), st') \<Longrightarrow>
     origin_objs st' = origin_objs st \<and> origin_arrays st' = origin_arrays st \<and>
     http_objs st' = http_objs st \<and> frontend_arrays st' = frontend_arrays st"
  by (auto simp: force_logging_def Let_def split: option.splits)

lemma origins_doc_cong:
  "origin_objs st' = origin_objs st \<Longrightarrow> origin_arrays st' = origin_arrays st \<Longrightarrow>
   http_objs st' = http_objs st \<Longrightarrow> origins_doc st' a = origins_doc st a"
  by (simp add: origins_doc_def origin_doc_def)

lemma Engine_new_Inr:
  assumes "Engine_new env st sc = Inr s"
  obtains d fa st1 oa st2 la w where
    "load_config env (sc_engineConfig sc) = Some d"
    "inject_frontend st (ec_frontends d)
       \<lparr>fe_extensions = extensions (frontendParams s), fe_host = ''127.0.0.1'',
        fe_endpoint = mp_endpoint s, fe_port = 0\<rparr> = (fa, st1)"
    "inject_origins st1 (ec_origins d) (originParams s)
       (synthetic_url (graphqlPort s) (mp_endpoint s)) (mp_psk s) = (oa, st2)"
    "force_logging st2 (ec_logging d) = ((la, w), heap s)"
    "engineConfig s = \<lparr>ac_apiKey = ec_apiKey d, ac_origins = oa, ac_frontends = fa,
        ac_logging = la, ac_rest = ec_rest d\<rparr>"
    "console_error s = w"
proof -
  let ?endpoint = "or_string (sc_endpoint sc) ''/graphql''"
  let ?oparams = "case sc_origin sc of None \<Rightarrow> empty_OriginParams | Some p \<Rightarrow> p"
  let ?fparams = "case sc_frontend sc of None \<Rightarrow> empty_FrontendParams | Some p \<Rightarrow> p"
  obtain d where d: "load_config env (sc_engineConfig sc) = Some d"
    using assms by (cases "load_config env (sc_engineConfig sc)") (simp_all add: Engine_new_def)
  obtain gport where g: "choose_graphqlPort (sc_graphqlPort sc) (env_PORT env) = Inr gport"
    using assms d
    by (cases "choose_graphqlPort (sc_graphqlPort sc) (env_PORT env)")
       (simp_all add: Engine_new_def Let_def)
  obtain fa st1 where f: "inject_frontend st (ec_frontends d)
       \<lparr>fe_extensions = extensions ?fparams, fe_host = ''127.0.0.1'',
        fe_endpoint = ?endpoint, fe_port = 0\<rparr> = (fa, st1)"
    by (rule prod.exhaust)
  obtain oa st2 where oo: "inject_origins st1 (ec_origins d) ?oparams
       (synthetic_url gport ?endpoint) (env_randomHex env) = (oa, st2)"
    by (rule prod.exhaust)
  obtain la w st3 where l: "force_logging st2 (ec_logging d) = ((la, w), st3)"
    by (metis prod.exhaust)
  have *: "(case resolve_binary (env_platform env) of
        Inl e \<Rightarrow> Inl (e, st3)
      | Inr bin \<Rightarrow> Inr \<lparr>running = False, child = Undefined, graphqlPort = gport, binary = bin,
       engineConfig = \<lparr>ac_apiKey = ec_apiKey d, ac_origins = oa, ac_frontends = fa,
          ac_logging = la, ac_rest = ec_rest d\<rparr>,
       startupTimeout = or_nat (sc_startupTimeout sc) 1000,
       originParams = ?oparams, frontendParams = ?fparams, mp_endpoint = ?endpoint,
       mp_psk = env_randomHex env, mp_uri = new_uri,
       mp_dumpTraffic = (case sc_dumpTraffic sc of None \<Rightarrow> False | Some b \<Rightarrow> b),
       heap = st3, procs = [], timers = [], starts = [], stops = [], error_events = [],
       console_log = [], console_error = w\<rparr>) = Inr s"
    using assms by (simp add: Engine_new_def Let_def d g f oo l)
  then obtain bin where s: "s = \<lparr>running = False, child = Undefined, graphqlPort = gport, binary = bin,
       engineConfig = \<lparr>ac_apiKey = ec_apiKey d, ac_origins = oa, ac_frontends = fa,
          ac_logging = la, ac_rest = ec_rest d\<rparr>,
       startupTimeout = or_nat (sc_startupTimeout sc) 1000,
       originParams = ?oparams, frontendParams = ?fparams, mp_endpoint = ?endpoint,
       mp_psk = env_randomHex env, mp_uri = new_uri,
       mp_dumpTraffic = (case sc_dumpTraffic sc of None \<Rightarrow> False | Some b \<Rightarrow> b),
       heap = st3, procs = [], timers = [], starts = [], stops = [], error_events = [],
       console_log = [], console_error = w\<rparr>"
    by (cases "resolve_binary (env_platform env)") auto
  show thesis
  proof (rule that [of d fa st1 oa st2 la w])
    show "load_config env (sc_engineConfig sc) = Some d" by (rule d)
    show "inject_frontend st (ec_frontends d)
       \<lparr>fe_extensions = extensions (frontendParams s), fe_host = ''127.0.0.1'',
        fe_endpoint = mp_endpoint s, fe_port = 0\<rparr> = (fa, st1)"
      using f by (simp add: s)
    show "inject_origins st1 (ec_origins d) (originParams s)
       (synthetic_url (graphqlPort s) (mp_endpoint s)) (mp_psk s) = (oa, st2)"
      using oo by (simp add: s)
    show "force_logging st2 (ec_logging d) = ((la, w), heap s)"
      using l by (simp add: s)
    show "engineConfig s = \<lparr>ac_apiKey = ec_apiKey d, ac_origins = oa, ac_frontends = fa,
        ac_logging = la, ac_rest = ec_rest d\<rparr>"
      by (simp add: s)
    show "console_error s = w" by (simp add: s)
  qed
qed

lemmas ctor_defs = Engine_new_def load_config_def demo_env_def choose_graphqlPort_def
  resolve_binary_def inject_frontend_def inject_origins_def force_logging_def
  extend_origin_def blank_store_def empty_LoggingConfig_def empty_OriginParams_def
  empty_FrontendParams_def or_string_def or_nat_def truthy_string_def synthetic_url_def

lemma shared_constructed: "Engine_new demo_env shared_store shared_sideload = Inr shared_demo"
  by (simp add: shared_demo_def Engine_new_def load_config_def demo_env_def shared_sideload_def
      choose_graphqlPort_def resolve_binary_def Let_def split: prod.splits)

lemma show_nat_3000: "show_nat 3000 = ''3000''"
  by (simp add: show_nat.simps digit_char_def)

lemma demo_origins:
  "cd_origins (stringify (heap demo) (engineConfig demo)) =
     [\<lparr>od_params = empty_OriginParams,
       od_http = Some \<lparr>url = ''http://127.0.0.1:3000/graphql'', headerSecret = ''c0ffee''\<rparr>,
       od_extra = []\<rparr>]"
  by (simp add: demo_def ctor_defs error_sideload_def error_store_def Let_def stringify_def
      origins_doc_def origin_doc_def show_nat_3000 split: prod.splits)

text \<open>
  Claim C7.  After construction from a document \<open>d\<close>: if \<open>d\<close> has no \<^verbatim>\<open>origins\<close>
  field, the assembled configuration has exactly one origin, whose \<^verbatim>\<open>http.url\<close> is
  \<^verbatim>\<open>"http://127.0.0.1:"\<close> followed by the GraphQL port and the endpoint, and whose
  \<^verbatim>\<open>http.headerSecret\<close> is the generated secret; if \<open>d\<close> has an \<^verbatim>\<open>origins\<close> array, the
  assembled origins are the caller's origins in order, each with the secret written
  into its \<^verbatim>\<open>http\<close> object when it has one and otherwise unchanged (an empty array
  stays empty).
\<close>

theorem constructor_origins:
  assumes "Engine_new env st sc = Inr s"
    and "load_config env (sc_engineConfig sc) = Some d"
  shows "(ec_origins d = None \<longrightarrow>
            cd_origins (stringify (heap s) (engineConfig s)) =
              [\<lparr>od_params = originParams s,
                od_http = Some \<lparr>url = ''http://127.0.0.1:'' @ show_nat (graphqlPort s) @ mp_endpoint s,
                                headerSecret = mp_psk s\<rparr>,
                od_extra = []\<rparr>]) \<and>
         (\<forall>a. ec_origins d = Some a \<longrightarrow>
            cd_origins (stringify (heap s) (engineConfig s)) =
              map (with_secret (mp_psk s)) (origins_doc st a))"
proof -
  from assms(1) obtain d' fa st1 oa st2 la w where
    d': "load_config env (sc_engineConfig sc) = Some d'"
    and f: "inject_frontend st (ec_frontends d')
       \<lparr>fe_extensions = extensions (frontendParams s), fe_host = ''127.0.0.1'',
        fe_endpoint = mp_endpoint s, fe_port = 0\<rparr> = (fa, st1)"
    and oo: "inject_origins st1 (ec_origins d') (originParams s)
       (synthetic_url (graphqlPort s) (mp_endpoint s)) (mp_psk s) = (oa, st2)"
    and l: "force_logging st2 (ec_logging d') = ((la, w), heap s)"
    and c: "engineConfig s = \<lparr>ac_apiKey = ec_apiKey d', ac_origins = oa, ac_frontends = fa,
        ac_logging = la, ac_rest = ec_rest d'\<rparr>"
    by (rule Engine_new_Inr)
  from d' assms(2) have [simp]: "d' = d" by simp
  have od: "cd_origins (stringify (heap s) (engineConfig s)) = origins_doc st2 oa"
    using force_logging_frame [OF l] by (simp add: stringify_def c origins_doc_cong [of "heap s" st2])
  have st1: "origins_doc st1 a = origins_doc st a" for a
    using inject_frontend_frame [OF f] by (simp add: origins_doc_cong [of st1 st])
  have fr: "origin_objs st1 = origin_objs st" "origin_arrays st1 = origin_arrays st" "http_objs st1 = http_objs st"
    using inject_frontend_frame [OF f] by simp_all
  show ?thesis
  proof (cases "ec_origins d")
    case None
    with oo show ?thesis
      by (auto simp: od inject_origins_def Let_def origins_doc_def origin_doc_def synthetic_url_def)
  next
    case (Some a)
    with oo have "oa = a" "st2 = foldl (extend_origin (mp_psk s)) st1 (origin_arrays st1 a)"
      by (auto simp: inject_origins_def)
    then have "origins_doc st2 oa = map (with_secret (mp_psk s)) (origins_doc st1 a)"
      by (simp add: origins_doc_extended)
    with Some show ?thesis by (simp add: od st1)
  qed
qed

theorem constructor_origins_witness:
  "cd_origins (stringify (heap demo) (engineConfig demo)) =
     [\<lparr>od_params = empty_OriginParams,
       od_http = Some \<lparr>url = ''http://127.0.0.1:3000/graphql'', headerSecret = ''c0ffee''\<rparr>,
       od_extra = []\<rparr>] \<and>
   cd_origins (stringify (heap shared_demo) (engineConfig shared_demo)) =
     [\<lparr>od_params = empty_OriginParams,
       od_http = Some \<lparr>url = ''http://localhost:4000/graphql'', headerSecret = ''c0ffee''\<rparr>,
       od_extra = []\<rparr>,
      \<lparr>od_params = empty_OriginParams, od_http = None,
       od_extra = [(''lambda'', ''arn:aws:lambda:fn'')]\<rparr>]"
  using constructor_origins [OF demo_constructed, of "\<lparr>ec_apiKey = ''key'', ec_origins = None,
         ec_frontends = None, ec_logging = Some 0, ec_rest = []\<rparr>"]
    constructor_origins [OF shared_constructed, of "\<lparr>ec_apiKey = ''key'', ec_origins = Some 0,
         ec_frontends = Some 0, ec_logging = None, ec_rest = []\<rparr>"]
  by (simp add: load_config_def error_sideload_def shared_sideload_def demo_origins demo_env_def
      Engine_new_initial [OF shared_constructed] origins_doc_def origin_doc_def
      shared_store_def blank_store_def with_secret_def)

section \<open>The constructor and the caller's document\<close>

text \<open>
  Claim C9 says that construction leaves the caller's document unchanged.  The
  constructor copies only the top-level object, so it is not so: in the example the
  caller's own \<^verbatim>\<open>frontends\<close> array (address 0) has gained the injected frontend, and
  the caller's \<^verbatim>\<open>http\<close> object (address 0) has lost its secret to the generated one.
\<close>

theorem constructor_mutates_caller_document:
  "frontend_arrays shared_store 0 = [user_frontend] \<and>
   frontend_arrays (heap shared_demo) 0 =
     [user_frontend,
      \<lparr>fe_extensions = None, fe_host = ''127.0.0.1'', fe_endpoint = ''/graphql'', fe_port = 0\<rparr>] \<and>
   headerSecret (http_objs shared_store 0) = ''user-secret'' \<and>
   headerSecret (http_objs (heap shared_demo) 0) = ''c0ffee''"
  by (simp add: shared_demo_def ctor_defs shared_sideload_def shared_store_def Let_def
      split: prod.splits)

section \<open>The \<^verbatim>\<open>uri\<close> invariant\<close>

lemma alive_spawnChild: "alive s p \<Longrightarrow> alive (spawnChild s) p"
  by (simp add: alive_def nth_append)

lemma alive_on_data [simp]: "alive (on_data p r s) q = alive s q"
  by (simp add: alive_def)

lemma alive_start: "start s = Inr s' \<Longrightarrow> alive s p \<Longrightarrow> alive s' p"
  by (auto simp: start_def Let_def alive_def nth_append split: if_splits)

lemma alive_stop: "stop s = Inr s' \<Longrightarrow> alive s' p = alive s p"
  by (auto simp: stop_def alive_def nth_update_if split: child_ref.splits if_splits)

lemma mp_uri_start: "start s = Inr s' \<Longrightarrow> mp_uri s' = mp_uri s"
  by (auto simp: start_def Let_def split: if_splits)

lemma mp_uri_stop: "stop s = Inr s' \<Longrightarrow> mp_uri s' = mp_uri s"
  by (auto simp: stop_def split: child_ref.splits)

lemma mp_uri_on_timer [simp]: "mp_uri (on_timer t s) = mp_uri s"
  by (simp add: on_timer_def startup_timeout_def Let_def split: timer_action.splits child_ref.splits)

lemma alive_on_timer [simp]: "alive (on_timer t s) p = alive s p"
  by (auto simp: on_timer_def startup_timeout_def Let_def alive_def nth_update_if
      split: timer_action.splits child_ref.splits if_splits)

lemma mp_uri_on_exit [simp]: "mp_uri (on_exit p code signal s) = []"
  by (simp add: on_exit_def Let_def)

lemma uri_tracks_step:
  assumes "uri_tracks a s" and "enabled s e" and "from_live s e"
  shows "uri_tracks (track_uri a e) (step s e)"
proof (cases e)
  case CallStart
  with assms show ?thesis
    by (auto simp: uri_tracks_def mp_uri_start alive_start split: option.splits sum.splits)
next
  case CallStop
  with assms show ?thesis
    by (auto simp: uri_tracks_def mp_uri_stop alive_stop split: option.splits sum.splits)
next
  case (Data p r)
  with assms show ?thesis
    by (auto simp: uri_tracks_def alive_def split: option.splits)
next
  case (StreamError p b)
  with assms show ?thesis
    by (auto simp: uri_tracks_def alive_def on_stream_error_def split: option.splits)
next
  case (Exit p code signal)
  with assms show ?thesis
    by (simp add: uri_tracks_def alive_def)
next
  case (TimerFires t)
  with assms show ?thesis
    by (auto simp: uri_tracks_def split: option.splits)
qed

lemma uri_tracks_trace:
  "uri_tracks a s \<Longrightarrow> wf_trace s evs \<Longrightarrow> in_order s evs \<Longrightarrow>
   uri_tracks (foldl track_uri a evs) (foldl step s evs)"
  by (induction evs arbitrary: a s) (simp_all add: uri_tracks_step)

text \<open>
  As long as every record is decoded before the exit of its process is delivered,
  \<^verbatim>\<open>uri\<close> is empty unless a readiness record has been decoded and no process has
  exited since, and then the process that sent it is still alive.
\<close>

lemma uri_tracks_in_order:
  assumes "Engine_new env st sc = Inr s0" and "wf_trace s0 evs" and "in_order s0 evs"
  shows "uri_tracks (announced evs) (exec s0 evs)"
proof -
  have "uri_tracks None s0"
    using assms(1) by (simp add: uri_tracks_def Engine_new_initial)
  then show ?thesis
    unfolding announced_def exec_def using assms(2,3) by (rule uri_tracks_trace)
qed

text \<open>
  Claim C3 says that \<^verbatim>\<open>uri\<close> is empty in every reachable state in which no child
  process is live, and that it holds a URL only between a readiness record and the
  next exit of the child that sent it.  The exit handler wipes \<^verbatim>\<open>uri\<close> (``so
  middleware doesn't route to dead process''), but the record handler sets it without
  looking whether the process that wrote the record is still there, and a record
  can be decoded after the exit of its process has been delivered.  Three event
  sequences the surroundings allow, each ending in the readiness record of the first
  child: after that child has exited with code 78, after the startup timer has killed
  it and its exit has been delivered, and after it has crashed and been replaced.
  In the first two no process is alive and \<^verbatim>\<open>uri\<close> is not empty; in the third \<^verbatim>\<open>uri\<close>
  is the address of the dead process while the replacement has not become ready.
\<close>

theorem late_readiness_sets_uri:
  "wf_trace demo [CallStart, Exit 0 (Some 78) None, Data 0 (ready_at ''127.0.0.1:54321'')] \<and>
   mp_uri (exec demo [CallStart, Exit 0 (Some 78) None, Data 0 (ready_at ''127.0.0.1:54321'')]) =
     ''http://127.0.0.1:54321'' \<and>
   length (procs (exec demo
     [CallStart, Exit 0 (Some 78) None, Data 0 (ready_at ''127.0.0.1:54321'')])) = 1 \<and>
   \<not> alive (exec demo
     [CallStart, Exit 0 (Some 78) None, Data 0 (ready_at ''127.0.0.1:54321'')]) 0 \<and>
   wf_trace demo [CallStart, TimerFires 0, Exit 0 None (Some ''SIGKILL''),
     Data 0 (ready_at ''127.0.0.1:54321'')] \<and>
   mp_uri (exec demo [CallStart, TimerFires 0, Exit 0 None (Some ''SIGKILL''),
     Data 0 (ready_at ''127.0.0.1:54321'')]) = ''http://127.0.0.1:54321'' \<and>
   length (procs (exec demo [CallStart, TimerFires 0, Exit 0 None (Some ''SIGKILL''),
     Data 0 (ready_at ''127.0.0.1:54321'')])) = 1 \<and>
   \<not> alive (exec demo [CallStart, TimerFires 0, Exit 0 None (Some ''SIGKILL''),
     Data 0 (ready_at ''127.0.0.1:54321'')]) 0 \<and>
   wf_trace demo [CallStart, Exit 0 (Some 1) None, Data 0 (ready_at ''127.0.0.1:54321'')] \<and>
   mp_uri (exec demo [CallStart, Exit 0 (Some 1) None, Data 0 (ready_at ''127.0.0.1:54321'')]) =
     ''http://127.0.0.1:54321'' \<and>
   \<not> alive (exec demo
     [CallStart, Exit 0 (Some 1) None, Data 0 (ready_at ''127.0.0.1:54321'')]) 0"
  by (simp add: exec_def start_def on_exit_def on_timer_def startup_timeout_def Let_def
      demo_initial alive_def nth_append is_started_def ready_at_def show_undefined_def)

section \<open>The logging level across a respawn\<close>

lemma current_level_updates [simp]:
  "current_level (running_update f1 s) = current_level s"
  "current_level (child_update f2 s) = current_level s"
  "current_level (mp_uri_update f3 s) = current_level s"
  "current_level (procs_update f4 s) = current_level s"
  "current_level (timers_update f5 s) = current_level s"
  "current_level (starts_update f6 s) = current_level s"
  "current_level (stops_update f7 s) = current_level s"
  "current_level (error_events_update f8 s) = current_level s"
  "current_level (console_log_update f9 s) = current_level s"
  "current_level (console_error_update f10 s) = current_level s"
  by (simp_all add: current_level_def)

lemma current_level_spawnChild [simp]:
  "current_level (spawnChild s) =
     (if level_hack (current_level s) = None then current_level s else Some ''info'')"
  by (simp add: spawnChild_def Let_def)

lemma doc_level_stringify [simp]:
  "doc_level (stringify (heap s) (engineConfig s)) = current_level s"
  by (simp add: doc_level_def stringify_def current_level_def)

lemma stdin_spawned [simp]:
  "map doc_level (stdin (spawned s)) =
     [if level_hack (current_level s) = None then current_level s else Some ''info'']"
  using doc_level_stringify [of "spawnChild s"] by (simp add: spawned_def)

lemma current_level_on_started [simp]:
  "current_level (on_started p r s) =
     (if logLevelFilter (procs s ! p) = None then current_level s else logLevel (procs s ! p))"
  by (simp add: on_started_def Let_def)

lemma stdin_on_started [simp]:
  "map doc_level (stdin (procs (on_started p r s) ! q)) =
     (if q = p \<and> p < length (procs s) \<and> logLevelFilter (procs s ! p) \<noteq> None
      then map doc_level (stdin (procs s ! p)) @ [logLevel (procs s ! p)]
      else map doc_level (stdin (procs s ! q)))"
  using doc_level_stringify [of "on_started p r s"]
  by (simp add: on_started_proc nth_update_if)

lemma current_level_on_data [simp]:
  "current_level (on_data p r s) =
     (if is_started r \<and> logLevelFilter (procs s ! p) \<noteq> None
      then logLevel (procs s ! p) else current_level s)"
  by (simp add: on_data_def Let_def)

lemma stdin_on_data [simp]:
  "map doc_level (stdin (procs (on_data p r s) ! q)) =
     (if is_started r \<and> q = p \<and> p < length (procs s) \<and> logLevelFilter (procs s ! p) \<noteq> None
      then map doc_level (stdin (procs s ! p)) @ [logLevel (procs s ! p)]
      else map doc_level (stdin (procs s ! q)))"
  by (simp add: on_data_def Let_def)

lemma level_hack_examples:
  "level_hack (Some ''error'') = Some ErrorUp"
  "level_hack (Some ''info'') = None"
  "level_hack (Some ''warn'') = Some WarnUp"
  "level_hack (Some ''fatal'') = Some FatalOnly"
  by (simp_all add: level_hack_def toLowerCase_def toLowerCase_char_def)

lemma is_started_ready_at [simp]: "is_started (ready_at a)"
  by (simp add: is_started_def ready_at_def)

text \<open>A crash after the readiness record finds the requested level written back: the
  replacement is sent \<^verbatim>\<open>info\<close>, gets the filter, and is sent \<^verbatim>\<open>error\<close> when it becomes
  ready.\<close>

lemma respawn_after_readiness_keeps_level:
  "map doc_level (stdin (procs (exec demo
       [CallStart, Data 0 (ready_at ''127.0.0.1:54321''), Exit 0 (Some 1) None,
        Data 1 (ready_at ''127.0.0.1:54322'')]) ! 1)) =
     [Some ''info'', Some ''error''] \<and>
   logLevelFilter (procs (exec demo
       [CallStart, Data 0 (ready_at ''127.0.0.1:54321''), Exit 0 (Some 1) None]) ! 1) =
     Some ErrorUp"
  by (simp add: exec_def start_def on_exit_def Let_def demo_initial demo_level
      level_hack_examples nth_append)

text \<open>
  Claim C1 says that the document written to a respawned child is built from the
  unmodified configuration, with the level the user asked for.  The hack overwrites
  the level in the one configuration object and only the readiness record writes it
  back, so a crash before readiness leaves \<^verbatim>\<open>info\<close> behind.  In the example the user
  asks for \<^verbatim>\<open>error\<close>.  Without a crash the child is sent \<^verbatim>\<open>info\<close> and then \<^verbatim>\<open>error\<close>.
  When the first child exits with code 1 before becoming ready, the replacement is
  sent \<^verbatim>\<open>info\<close>, no filter is installed for it, its readiness record triggers no
  second document, and the configuration stays at \<^verbatim>\<open>info\<close>.
\<close>

theorem respawn_before_readiness_loses_level:
  "current_level demo = Some ''error'' \<and>
   map doc_level (stdin (procs (exec demo [CallStart, Data 0 (ready_at ''127.0.0.1:54321'')]) ! 0)) =
     [Some ''info'', Some ''error''] \<and>
   map doc_level (stdin (procs (exec demo [CallStart, Exit 0 (Some 1) None]) ! 1)) =
     [Some ''info''] \<and>
   logLevelFilter (procs (exec demo [CallStart, Exit 0 (Some 1) None]) ! 1) = None \<and>
   map doc_level (stdin (procs (exec demo
       [CallStart, Exit 0 (Some 1) None, Data 1 (ready_at ''127.0.0.1:54321'')]) ! 1)) =
     [Some ''info''] \<and>
   current_level (exec demo
       [CallStart, Exit 0 (Some 1) None, Data 1 (ready_at ''127.0.0.1:54321'')]) = Some ''info''"
  by (simp add: exec_def start_def on_exit_def Let_def demo_initial demo_level
      level_hack_examples nth_append)

section \<open>\<^verbatim>\<open>stop()\<close> without a live child\<close>

text \<open>What \<^verbatim>\<open>stop()\<close> does when \<^verbatim>\<open>this.child\<close> is \<^verbatim>\<open>null\<close>, and when it holds a process
  that is alive: the flag is cleared, \<^verbatim>\<open>SIGTERM\<close> is sent, and the promise is settled by
  the exit of that process, after which nothing is respawned.\<close>

lemma stop_null_throws:
  "child s = Null \<Longrightarrow> stop s = Inl (Error ''No engine instance running...'')"
  by (simp add: stop_def)

lemma stop_live_child:
  assumes "child s = Child p" and "alive s p"
  shows "stop s = Inr (step s CallStop)"
    and "\<not> running (step s CallStop)"
    and "child (step s CallStop) = Null"
    and "kills (procs (step s CallStop) ! p) = kills (procs s ! p) @ [''SIGTERM'']"
    and "stops (step s CallStop) = stops s @ [\<lparr>sg_child = Child p, sg_promise = Pending\<rparr>]"
    and "sg_promise (stops (step (step s CallStop) (Exit p code signal)) ! length (stops s)) =
           Resolved ()"
    and "length (procs (step (step s CallStop) (Exit p code signal))) = length (procs s)"
    and "\<not> alive (step (step s CallStop) (Exit p code signal)) p"
  using assms
  by (simp_all add: stop_def alive_def on_exit_def Let_def settle_stop_def nth_append)

text \<open>
  Claim C8 says that \<^verbatim>\<open>stop()\<close> fails when no child process is active.  \<^verbatim>\<open>stop()\<close>
  throws only when \<^verbatim>\<open>this.child\<close> is \<^verbatim>\<open>null\<close>.  After the child has exited with code
  78 no process is alive, yet \<^verbatim>\<open>this.child\<close> still holds the handle: \<^verbatim>\<open>stop()\<close> does
  not throw and returns a promise that waits for an exit that has already happened.
  On a supervisor that was never started \<^verbatim>\<open>this.child\<close> is \<^verbatim>\<open>undefined\<close>: \<^verbatim>\<open>stop()\<close>
  does not throw that error either, and its promise is rejected by a type error.
\<close>

theorem stop_without_live_child_does_not_throw:
  "\<not> alive (exec demo [CallStart, Exit 0 (Some 78) None]) 0 \<and>
   length (procs (exec demo [CallStart, Exit 0 (Some 78) None])) = 1 \<and>
   stop (exec demo [CallStart, Exit 0 (Some 78) None]) \<noteq> Inl (Error ''No engine instance running...'') \<and>
   stops (exec demo [CallStart, Exit 0 (Some 78) None, CallStop]) =
     [\<lparr>sg_child = Child 0, sg_promise = Pending\<rparr>] \<and>
   stop demo \<noteq> Inl (Error ''No engine instance running...'') \<and>
   stops (exec demo [CallStop]) = [\<lparr>sg_child = Undefined, sg_promise = Rejected ''TypeError''\<rparr>]"
  by (simp add: exec_def start_def stop_def on_exit_def Let_def demo_initial alive_def)

section \<open>The logging level hack\<close>

lemma inject_origins_logging:
  "inject_origins st orr params u psk = (oa, st') \<Longrightarrow> logging_objs st' = logging_objs st"
  by (auto simp: inject_origins_def Let_def split: option.splits)

lemma Engine_new_level:
  assumes "Engine_new env st sc = Inr s"
    and "load_config env (sc_engineConfig sc) = Some d"
    and "ec_logging d = Some la"
  shows "current_level s = lg_level (logging_objs st la)"
proof -
  from assms(1) obtain d' fa st1 oa st2 la' w where
    d': "load_config env (sc_engineConfig sc) = Some d'"
    and f: "inject_frontend st (ec_frontends d')
       \<lparr>fe_extensions = extensions (frontendParams s), fe_host = ''127.0.0.1'',
        fe_endpoint = mp_endpoint s, fe_port = 0\<rparr> = (fa, st1)"
    and oo: "inject_origins st1 (ec_origins d') (originParams s)
       (synthetic_url (graphqlPort s) (mp_endpoint s)) (mp_psk s) = (oa, st2)"
    and l: "force_logging st2 (ec_logging d') = ((la', w), heap s)"
    and c: "engineConfig s = \<lparr>ac_apiKey = ec_apiKey d', ac_origins = oa, ac_frontends = fa,
        ac_logging = la', ac_rest = ec_rest d'\<rparr>"
    by (rule Engine_new_Inr)
  from d' assms(2) have [simp]: "d' = d" by simp
  have "logging_objs st2 = logging_objs st"
    using inject_frontend_frame [OF f] inject_origins_logging [OF oo] by simp
  moreover from l assms(3) have "la' = la"
    and "heap s = st2\<lparr>logging_objs := (logging_objs st2)
        (la := (logging_objs st2 la)\<lparr>lg_format := Some ''JSON'',
                                        lg_destination := Some ''STDOUT''\<rparr>)\<rparr>"
    by (auto simp: force_logging_def Let_def)
  ultimately show ?thesis
    by (simp add: current_level_def c)
qed

lemma console_log_on_data:
  "console_log (on_data p r s) =
     console_log s @ (if forwarded (logLevelFilter (procs s ! p)) (level r) then [r] else [])"
  by (simp add: on_data_def Let_def)

lemma timers_on_data_ready:
  "is_started r \<Longrightarrow> logLevelFilter (procs s ! p) \<noteq> None \<Longrightarrow>
   length (timers (on_data p r s)) = Suc (length (timers s)) \<and>
   timers (on_data p r s) ! length (timers s) =
     \<lparr>t_delay = 1000, t_action = LiftFilter p, t_status = Armed\<rparr>"
  by (simp add: on_data_def on_started_def Let_def nth_append)

lemma on_data_plain:
  "\<not> is_started r \<Longrightarrow>
   on_data p r s =
     (if forwarded (logLevelFilter (procs s ! p)) (level r)
      then s\<lparr>console_log := console_log s @ [r]\<rparr> else s)"
  by (simp add: on_data_def)

lemma exec_plain_data:
  assumes "p < length (procs s)" and "\<forall>r\<in>set rs. \<not> is_started r"
  shows "exec s (map (Data p) rs) =
     s\<lparr>console_log := console_log s @
          filter (\<lambda>r. forwarded (logLevelFilter (procs s ! p)) (level r)) rs\<rparr>"
  using assms
  by (induction rs arbitrary: s) (simp_all add: exec_def on_data_plain)

lemma exec_Cons: "exec s (e # evs) = exec (step s e) evs"
  by (simp add: exec_def)

lemma forwarded_ErrorUp:
  "\<not> forwarded (Some ErrorUp) (Some ''info'')"
  "\<not> forwarded (Some ErrorUp) (Some ''debug'')"
  "\<not> forwarded (Some ErrorUp) (Some ''warn'')"
  "forwarded (Some ErrorUp) (Some ''error'')"
  "forwarded (Some ErrorUp) (Some ''fatal'')"
  by (simp_all add: forwarded_def)

text \<open>
  The scenario of claim C2 for any requested level that selects a filter \<open>flt\<close>:
  ordinary records \<open>pre\<close>, the readiness record, ordinary records \<open>mid\<close>, the grace
  timer, ordinary records \<open>post\<close>.
\<close>

lemma hack_window:
  assumes "Engine_new env st sc = Inr s0"
    and "load_config env (sc_engineConfig sc) = Some d"
    and "ec_logging d = Some la"
    and "lg_level (logging_objs st la) = Some requested"
    and "level_hack (Some requested) = Some flt"
    and "is_started rdy"
    and "\<forall>r\<in>set pre \<union> set mid \<union> set post. \<not> is_started r"
  shows "let s1 = exec s0 (CallStart # map (Data 0) pre);
             s2 = exec s1 (Data 0 rdy # map (Data 0) mid);
             s3 = exec s2 (TimerFires 1 # map (Data 0) post)
         in map doc_level (stdin (procs s1 ! 0)) = [Some ''info''] \<and>
            map doc_level (stdin (procs s2 ! 0)) = [Some ''info'', Some requested] \<and>
            timers s2 ! 1 = \<lparr>t_delay = 1000, t_action = LiftFilter 0, t_status = Armed\<rparr> \<and>
            console_log s1 = filter (\<lambda>r. forwarded (Some flt) (level r)) pre \<and>
            console_log s2 =
              console_log s1 @ filter (\<lambda>r. forwarded (Some flt) (level r)) (rdy # mid) \<and>
            console_log s3 = console_log s2 @ post \<and>
            (requested = ''error'' \<longrightarrow>
               flt = ErrorUp \<and>
               \<not> forwarded (Some flt) (Some ''info'') \<and>
               \<not> forwarded (Some flt) (Some ''debug'') \<and>
               \<not> forwarded (Some flt) (Some ''warn''))"
proof -
  define a where "a = step s0 CallStart"
  define s1 where "s1 = exec s0 (CallStart # map (Data 0) pre)"
  define b where "b = step s1 (Data 0 rdy)"
  define s2 where "s2 = exec s1 (Data 0 rdy # map (Data 0) mid)"
  define c where "c = step s2 (TimerFires 1)"
  define s3 where "s3 = exec s2 (TimerFires 1 # map (Data 0) post)"
  note init = Engine_new_initial [OF assms(1)]
  have lvl: "current_level s0 = Some requested"
    using Engine_new_level [OF assms(1-3)] assms(4) by simp
  have pre: "\<forall>r\<in>set pre. \<not> is_started r" and mid: "\<forall>r\<in>set mid. \<not> is_started r"
    and post: "\<forall>r\<in>set post. \<not> is_started r"
    using assms(7) by auto
  have a: "length (procs a) = 1" "logLevelFilter (procs a ! 0) = Some flt"
    "logLevel (procs a ! 0) = Some requested"
    "map doc_level (stdin (procs a ! 0)) = [Some ''info'']"
    "console_log a = []" "length (timers a) = 1"
    using assms(5) by (simp_all add: a_def start_def Let_def init lvl)
  have s1: "s1 = a\<lparr>console_log := console_log a @
          filter (\<lambda>r. forwarded (logLevelFilter (procs a ! 0)) (level r)) pre\<rparr>"
    unfolding s1_def exec_Cons a_def [symmetric]
    by (rule exec_plain_data) (simp_all add: a pre)
  have b: "length (procs b) = 1" "logLevelFilter (procs b ! 0) = Some flt"
    "map doc_level (stdin (procs b ! 0)) = [Some ''info'', Some requested]"
    "console_log b = console_log s1 @ filter (\<lambda>r. forwarded (Some flt) (level r)) [rdy]"
    "length (timers b) = 2"
    "timers b ! 1 = \<lparr>t_delay = 1000, t_action = LiftFilter 0, t_status = Armed\<rparr>"
    using assms(6) timers_on_data_ready [of rdy s1 0]
    by (simp_all add: b_def s1 a console_log_on_data)
  have s2: "s2 = b\<lparr>console_log := console_log b @
          filter (\<lambda>r. forwarded (logLevelFilter (procs b ! 0)) (level r)) mid\<rparr>"
    unfolding s2_def exec_Cons b_def [symmetric]
    by (rule exec_plain_data) (simp_all add: b mid)
  have b1: "timers b ! Suc 0 = \<lparr>t_delay = 1000, t_action = LiftFilter 0, t_status = Armed\<rparr>"
    "length (procs b) = Suc 0"
    using b by simp_all
  have c: "length (procs c) = 1" "logLevelFilter (procs c ! 0) = None"
    "console_log c = console_log s2"
    by (simp_all add: c_def s2 b b1 on_timer_def Let_def)
  have s3: "s3 = c\<lparr>console_log := console_log c @
          filter (\<lambda>r. forwarded (logLevelFilter (procs c ! 0)) (level r)) post\<rparr>"
    unfolding s3_def exec_Cons c_def [symmetric]
    by (rule exec_plain_data) (simp_all add: c post)
  have e: "requested = ''error'' \<longrightarrow> flt = ErrorUp"
    using assms(5) by (auto simp: level_hack_examples)
  have "map doc_level (stdin (procs s1 ! 0)) = [Some ''info'']"
    by (simp add: s1 a)
  moreover have "map doc_level (stdin (procs s2 ! 0)) = [Some ''info'', Some requested]"
    by (simp add: s2 b)
  moreover have "timers s2 ! 1 = \<lparr>t_delay = 1000, t_action = LiftFilter 0, t_status = Armed\<rparr>"
    by (simp add: s2 b1)
  moreover have "console_log s1 = filter (\<lambda>r. forwarded (Some flt) (level r)) pre"
    by (simp add: s1 a)
  moreover have "console_log s2 =
      console_log s1 @ filter (\<lambda>r. forwarded (Some flt) (level r)) (rdy # mid)"
    by (simp add: s2 b)
  moreover have "console_log s3 = console_log s2 @ post"
    by (simp add: s3 c forwarded_def)
  ultimately show ?thesis
    using e unfolding Let_def s1_def [symmetric] s2_def [symmetric] s3_def [symmetric]
    by (auto simp: forwarded_ErrorUp)
qed

lemma demo_at_constructed:
  "Engine_new demo_env (level_store l) error_sideload = Inr (demo_at l)"
  by (simp add: demo_at_def Engine_new_def load_config_def demo_env_def error_sideload_def
      choose_graphqlPort_def resolve_binary_def Let_def split: prod.splits)

lemma forwarded_by_severity:
  assumes "requested = ''warn'' \<or> requested = ''error'' \<or> requested = ''fatal''"
  shows "\<forall>l\<in>set levels.
           forwarded (level_hack (Some requested)) (Some l) = (severity requested \<le> severity l)"
  using assms
  by (elim disjE) (simp_all add: level_hack_examples forwarded_def levels_def severity_def)

text \<open>
  Claim C2.  Let the user's document ask for level \<^verbatim>\<open>warn\<close>, \<^verbatim>\<open>error\<close> or \<^verbatim>\<open>fatal\<close>.
  Call \<^verbatim>\<open>start()\<close> on the new supervisor and let the child log ordinary records
  \<open>pre\<close>, then the readiness record, then ordinary records \<open>mid\<close>; let the grace timer
  run out, and let the child log ordinary records \<open>post\<close>.  Then the first document on
  the child's standard input carries level \<^verbatim>\<open>info\<close>; at the readiness record a second
  document carrying the requested level is written and a timer of 1000 ms that
  lifts the filter is set; of \<open>pre\<close>, the readiness record and \<open>mid\<close> exactly the
  records that pass the filter selected for the requested level are forwarded; and
  every record of \<open>post\<close> is forwarded.  The filter is there for each of the three
  levels, and of the levels \<^verbatim>\<open>debug\<close>, \<^verbatim>\<open>info\<close>, \<^verbatim>\<open>warn\<close>, \<^verbatim>\<open>error\<close>, \<^verbatim>\<open>fatal\<close> it
  passes exactly those at or above the requested one: for \<^verbatim>\<open>error\<close> it suppresses
  \<^verbatim>\<open>debug\<close>, \<^verbatim>\<open>info\<close> and \<^verbatim>\<open>warn\<close>, for \<^verbatim>\<open>warn\<close> it suppresses \<^verbatim>\<open>debug\<close> and \<^verbatim>\<open>info\<close>,
  for \<^verbatim>\<open>fatal\<close> everything below \<^verbatim>\<open>fatal\<close>.
\<close>

theorem level_hack_window:
  assumes "Engine_new env st sc = Inr s0"
    and "load_config env (sc_engineConfig sc) = Some d"
    and "ec_logging d = Some la"
    and "lg_level (logging_objs st la) = Some requested"
    and "requested = ''warn'' \<or> requested = ''error'' \<or> requested = ''fatal''"
    and "is_started rdy"
    and "\<forall>r\<in>set pre \<union> set mid \<union> set post. \<not> is_started r"
  shows "let s1 = exec s0 (CallStart # map (Data 0) pre);
             s2 = exec s1 (Data 0 rdy # map (Data 0) mid);
             s3 = exec s2 (TimerFires 1 # map (Data 0) post);
             flt = level_hack (Some requested)
         in map doc_level (stdin (procs s1 ! 0)) = [Some ''info''] \<and>
            map doc_level (stdin (procs s2 ! 0)) = [Some ''info'', Some requested] \<and>
            timers s2 ! 1 = \<lparr>t_delay = 1000, t_action = LiftFilter 0, t_status = Armed\<rparr> \<and>
            console_log s1 = filter (\<lambda>r. forwarded flt (level r)) pre \<and>
            console_log s2 =
              console_log s1 @ filter (\<lambda>r. forwarded flt (level r)) (rdy # mid) \<and>
            console_log s3 = console_log s2 @ post \<and>
            flt \<noteq> None \<and>
            (\<forall>l\<in>set levels. forwarded flt (Some l) = (severity requested \<le> severity l)) \<and>
            (requested = ''error'' \<longrightarrow>
               flt = Some ErrorUp \<and>
               \<not> forwarded flt (Some ''info'') \<and>
               \<not> forwarded flt (Some ''debug'') \<and>
               \<not> forwarded flt (Some ''warn'')) \<and>
            (requested = ''warn'' \<longrightarrow>
               \<not> forwarded flt (Some ''info'') \<and>
               \<not> forwarded flt (Some ''debug'') \<and>
               forwarded flt (Some ''warn'')) \<and>
            (requested = ''fatal'' \<longrightarrow>
               \<not> forwarded flt (Some ''info'') \<and>
               \<not> forwarded flt (Some ''debug'') \<and>
               \<not> forwarded flt (Some ''warn'') \<and>
               \<not> forwarded flt (Some ''error''))"
proof -
  from assms(5) have "\<exists>f. level_hack (Some requested) = Some f"
    by (elim disjE) (simp_all add: level_hack_examples)
  then obtain f where f: "level_hack (Some requested) = Some f" ..
  have sev: "\<forall>l\<in>set levels.
      forwarded (Some f) (Some l) = (severity requested \<le> severity l)"
    using forwarded_by_severity [OF assms(5)] by (simp add: f)
  have ex: "(requested = ''error'' \<longrightarrow>
       f = ErrorUp \<and> \<not> forwarded (Some f) (Some ''info'') \<and>
       \<not> forwarded (Some f) (Some ''debug'') \<and> \<not> forwarded (Some f) (Some ''warn'')) \<and>
     (requested = ''warn'' \<longrightarrow>
       \<not> forwarded (Some f) (Some ''info'') \<and> \<not> forwarded (Some f) (Some ''debug'') \<and>
       forwarded (Some f) (Some ''warn'')) \<and>
     (requested = ''fatal'' \<longrightarrow>
       \<not> forwarded (Some f) (Some ''info'') \<and> \<not> forwarded (Some f) (Some ''debug'') \<and>
       \<not> forwarded (Some f) (Some ''warn'') \<and> \<not> forwarded (Some f) (Some ''error''))"
    using f assms(5) by (elim disjE) (simp_all add: level_hack_examples forwarded_def)
  from hack_window [OF assms(1-4) f assms(6,7)] sev ex
  show ?thesis
    unfolding Let_def f by blast
qed

theorem level_hack_window_witness:
  "(let s1 = exec (demo_at ''error'') (CallStart # map (Data 0) [rec_at ''info'']);
        s2 = exec s1 (Data 0 (ready_at ''127.0.0.1:54321'') #
                      map (Data 0) [rec_at ''warn'', rec_at ''error'']);
        s3 = exec s2 (TimerFires 1 # map (Data 0) [rec_at ''debug''])
    in map doc_level (stdin (procs s1 ! 0)) = [Some ''info''] \<and>
       map doc_level (stdin (procs s2 ! 0)) = [Some ''info'', Some ''error''] \<and>
       console_log s1 = [] \<and>
       console_log s2 = [rec_at ''error''] \<and>
       console_log s3 = [rec_at ''error'', rec_at ''debug'']) \<and>
   (let s1 = exec (demo_at ''warn'') (CallStart # map (Data 0) [rec_at ''info'', rec_at ''warn'']);
        s2 = exec s1 (Data 0 (ready_at ''127.0.0.1:54321'') #
                      map (Data 0) [rec_at ''debug'', rec_at ''error'']);
        s3 = exec s2 (TimerFires 1 # map (Data 0) [rec_at ''info''])
    in map doc_level (stdin (procs s1 ! 0)) = [Some ''info''] \<and>
       map doc_level (stdin (procs s2 ! 0)) = [Some ''info'', Some ''warn''] \<and>
       console_log s1 = [rec_at ''warn''] \<and>
       console_log s2 = [rec_at ''warn'', rec_at ''error''] \<and>
       console_log s3 = [rec_at ''warn'', rec_at ''error'', rec_at ''info'']) \<and>
   (let s1 = exec (demo_at ''fatal'') (CallStart # map (Data 0) [rec_at ''error'', rec_at ''fatal'']);
        s2 = exec s1 (Data 0 (ready_at ''127.0.0.1:54321'') #
                      map (Data 0) [rec_at ''warn'']);
        s3 = exec s2 (TimerFires 1 # map (Data 0) [rec_at ''error''])
    in map doc_level (stdin (procs s1 ! 0)) = [Some ''info''] \<and>
       map doc_level (stdin (procs s2 ! 0)) = [Some ''info'', Some ''fatal''] \<and>
       console_log s1 = [rec_at ''fatal''] \<and>
       console_log s2 = [rec_at ''fatal''] \<and>
       console_log s3 = [rec_at ''fatal'', rec_at ''error''])"
  using level_hack_window [OF demo_at_constructed,
      of "\<lparr>ec_apiKey = ''key'', ec_origins = None, ec_frontends = None,
           ec_logging = Some 0, ec_rest = []\<rparr>" 0 "''error''" "''error''"
         "ready_at ''127.0.0.1:54321''" "[rec_at ''info'']"
         "[rec_at ''warn'', rec_at ''error'']" "[rec_at ''debug'']"]
    level_hack_window [OF demo_at_constructed,
      of "\<lparr>ec_apiKey = ''key'', ec_origins = None, ec_frontends = None,
           ec_logging = Some 0, ec_rest = []\<rparr>" 0 "''warn''" "''warn''"
         "ready_at ''127.0.0.1:54321''" "[rec_at ''info'', rec_at ''warn'']"
         "[rec_at ''debug'', rec_at ''error'']" "[rec_at ''info'']"]
    level_hack_window [OF demo_at_constructed,
      of "\<lparr>ec_apiKey = ''key'', ec_origins = None, ec_frontends = None,
           ec_logging = Some 0, ec_rest = []\<rparr>" 0 "''fatal''" "''fatal''"
         "ready_at ''127.0.0.1:54321''" "[rec_at ''error'', rec_at ''fatal'']"
         "[rec_at ''warn'']" "[rec_at ''error'']"]
  by (simp add: load_config_def error_sideload_def level_store_def blank_store_def
      empty_LoggingConfig_def level_hack_examples is_started_def rec_at_def ready_at_def
      forwarded_def Let_def)

section \<open>The startup timeout\<close>

lemma exec_Nil [simp]: "exec s [] = s"
  by (simp add: exec_def)

lemma exec_append: "exec s (xs @ ys) = exec (exec s xs) ys"
  by (simp add: exec_def)

lemma wf_trace_append: "wf_trace s (xs @ ys) = (wf_trace s xs \<and> wf_trace (exec s xs) ys)"
  by (induction xs arbitrary: s) (simp_all add: exec_Cons)

lemma starting_start:
  assumes "Engine_new env st sc = Inr s0"
  shows "starting (or_nat (sc_startupTimeout sc) 1000) (step s0 CallStart)"
  by (simp add: starting_def start_def Let_def Engine_new_initial [OF assms] alive_def)

lemma starting_step:
  assumes "starting T s" and "quiet e" and "enabled s e"
  shows "starting T (step s e)"
proof (cases e)
  case (Data p r)
  with assms show ?thesis
    by (auto simp: starting_def on_data_plain alive_def)
next
  case (StreamError p b)
  with assms show ?thesis
    by (auto simp: starting_def on_stream_error_def alive_def)
next
  case (Exit p code signal)
  with assms show ?thesis
    by (auto simp: starting_def on_exit_def Let_def alive_def nth_append nth_update_if
        split: if_splits)
qed (use assms in simp_all)

lemma starting_trace:
  "starting T s \<Longrightarrow> \<forall>e\<in>set evs. quiet e \<Longrightarrow> wf_trace s evs \<Longrightarrow> starting T (exec s evs)"
  by (induction evs arbitrary: s) (simp_all add: exec_Cons starting_step)

lemma starting_timeout:
  assumes "starting T s"
  shows "t_delay (timers (step s (TimerFires 0)) ! 0) = T"
    "g_promise (starts (step s (TimerFires 0)) ! 0) = Rejected ''timed out''"
    "\<not> running (step s (TimerFires 0))"
    "child (step s (TimerFires 0)) = Null"
    "starts (step s (TimerFires 0)) \<noteq> []"
    "length (procs (step s (TimerFires 0))) = length (procs s)"
    "alive (step s (TimerFires 0)) p \<Longrightarrow>
       p = length (procs s) - 1 \<and> last (kills (procs (step s (TimerFires 0)) ! p)) = ''SIGKILL''"
  using assms
  by (auto simp: starting_def on_timer_def startup_timeout_def Let_def reject_start_def
      alive_def nth_update_if)

lemma stopped_step:
  assumes "\<not> running s" and "e \<noteq> CallStart"
  shows "\<not> running (step s e) \<and> length (procs (step s e)) = length (procs s)"
proof (cases e)
  case CallStop
  then show ?thesis using assms
    by (auto simp: stop_def split: child_ref.splits)
next
  case (Exit p code signal)
  then show ?thesis using assms by (simp add: on_exit_def Let_def)
next
  case (TimerFires t)
  then show ?thesis using assms
    by (auto simp: on_timer_def startup_timeout_def Let_def
        split: timer_action.splits child_ref.splits)
qed (use assms in \<open>simp_all add: on_stream_error_def\<close>)

lemma stopped_trace:
  "\<not> running s \<Longrightarrow> CallStart \<notin> set evs \<Longrightarrow>
   \<not> running (exec s evs) \<and> length (procs (exec s evs)) = length (procs s)"
proof (induction evs arbitrary: s)
  case Nil
  then show ?case by simp
next
  case (Cons e evs)
  from Cons.prems have "\<not> running (step s e) \<and> length (procs (step s e)) = length (procs s)"
    by (intro stopped_step) auto
  with Cons.IH [of "step s e"] Cons.prems show ?case
    by (simp add: exec_Cons)
qed

lemma notify_start_settled: "g_promise g \<noteq> Pending \<Longrightarrow> notify_start u g = g"
  by (cases "g_promise g") (simp_all add: notify_start_def)

lemma reject_start_settled: "g_promise g \<noteq> Pending \<Longrightarrow> reject_start g = g"
  by (cases "g_promise g") (simp_all add: reject_start_def)

lemma g_timer_notify_start [simp]: "g_timer (notify_start u g) = g_timer g"
  by (simp add: notify_start_def split: promise.splits)

lemma g_timer_reject_start [simp]: "g_timer (reject_start g) = g_timer g"
  by (simp add: reject_start_def split: promise.splits)

lemma settled_step:
  assumes "i < length (starts s)" and "g_promise (starts s ! i) \<noteq> Pending"
  shows "i < length (starts (step s e)) \<and>
         g_promise (starts (step s e) ! i) = g_promise (starts s ! i)"
proof (cases e)
  case CallStart
  with assms show ?thesis
    by (auto simp: start_def Let_def nth_append)
next
  case CallStop
  with assms show ?thesis
    by (auto simp: stop_def split: child_ref.splits)
next
  case (Data p r)
  with assms show ?thesis
    by (auto simp: notify_start_settled)
next
  case (StreamError p b)
  with assms show ?thesis
    by (auto simp: on_stream_error_def)
next
  case (Exit p code signal)
  with assms show ?thesis
    by (auto simp: on_exit_def Let_def)
next
  case (TimerFires t)
  with assms show ?thesis
    by (auto simp: on_timer_def startup_timeout_def Let_def nth_update_if reject_start_settled
        split: timer_action.splits child_ref.splits)
qed

lemma settled_trace:
  "i < length (starts s) \<Longrightarrow> g_promise (starts s ! i) \<noteq> Pending \<Longrightarrow>
   i < length (starts (exec s evs)) \<and>
   g_promise (starts (exec s evs) ! i) = g_promise (starts s ! i)"
proof (induction evs arbitrary: s)
  case Nil
  then show ?case by simp
next
  case (Cons e evs)
  from settled_step [OF Cons.prems, of e] Cons.IH [of "step s e"] Cons.prems
  show ?case by (simp add: exec_Cons)
qed

lemma status_clear_timer:
  "t < length ts \<Longrightarrow>
   t_status (clear_timer k ts ! t) =
     (if k = t \<and> t_status (ts ! t) = Armed then Cleared else t_status (ts ! t))"
  by (simp add: clear_timer_def nth_update_if)

lemma status_clear_timers_disarmed:
  "t < length ts \<Longrightarrow> t_status (ts ! t) \<noteq> Armed \<Longrightarrow>
   t_status (foldl (\<lambda>ts g. clear_timer (g_timer g) ts) ts gs ! t) \<noteq> Armed"
  by (induction gs arbitrary: ts) (simp_all add: status_clear_timer)

lemma status_clear_timers_gate:
  "g \<in> set gs \<Longrightarrow> g_timer g < length ts \<Longrightarrow>
   t_status (foldl (\<lambda>ts g. clear_timer (g_timer g) ts) ts gs ! g_timer g) \<noteq> Armed"
proof (induction gs arbitrary: ts)
  case Nil
  then show ?case by simp
next
  case (Cons h gs)
  show ?case
  proof (cases "h = g")
    case True
    have "t_status (clear_timer (g_timer g) ts ! g_timer g) \<noteq> Armed"
      using Cons.prems(2) by (simp add: status_clear_timer)
    with Cons.prems(2) True show ?thesis
      by (simp add: status_clear_timers_disarmed)
  next
    case False
    with Cons.prems have "g \<in> set gs" by simp
    from Cons.IH [OF this, of "clear_timer (g_timer h) ts"] Cons.prems(2)
    show ?thesis by simp
  qed
qed

lemma clear_timers_Nil [simp]:
  "(foldl (\<lambda>ts g. clear_timer (g_timer g) ts) ts gs = []) = (ts = [])"
  using length_clear_timers [of ts gs] by (metis length_0_conv)

lemma timers_on_started:
  "timers (on_started p r s) =
     foldl (\<lambda>ts g. clear_timer (g_timer g) ts) (timers s) (starts s) @
     (if logLevelFilter (procs s ! p) \<noteq> None
      then [\<lparr>t_delay = 1000, t_action = LiftFilter p, t_status = Armed\<rparr>] else [])"
  by (simp add: on_started_def emit_start_def Let_def)

lemma timers_on_data:
  "timers (on_data p r s) = (if is_started r then timers (on_started p r s) else timers s)"
  by (simp add: on_data_def Let_def)

lemma disarmed_step:
  assumes "t < length (timers s)" and "t_status (timers s ! t) \<noteq> Armed"
  shows "t < length (timers (step s e)) \<and> t_status (timers (step s e) ! t) \<noteq> Armed"
proof (cases e)
  case CallStart
  with assms show ?thesis
    by (auto simp: start_def Let_def nth_append)
next
  case CallStop
  with assms show ?thesis
    by (auto simp: stop_def split: child_ref.splits)
next
  case (Data p r)
  with assms show ?thesis
    by (auto simp: timers_on_data timers_on_started nth_append status_clear_timers_disarmed)
next
  case (StreamError p b)
  with assms show ?thesis
    by (auto simp: on_stream_error_def)
next
  case (Exit p code signal)
  with assms show ?thesis
    by (auto simp: on_exit_def Let_def)
next
  case (TimerFires k)
  with assms show ?thesis
    by (auto simp: on_timer_def startup_timeout_def Let_def nth_update_if
        split: timer_action.splits child_ref.splits)
qed

lemma disarmed_trace:
  "t < length (timers s) \<Longrightarrow> t_status (timers s ! t) \<noteq> Armed \<Longrightarrow>
   t < length (timers (exec s evs)) \<and> t_status (timers (exec s evs) ! t) \<noteq> Armed"
proof (induction evs arbitrary: s)
  case Nil
  then show ?case by simp
next
  case (Cons e evs)
  from disarmed_step [OF Cons.prems, of e] Cons.IH [of "step s e"]
  show ?case by (simp add: exec_Cons)
qed

lemma gate0_step: "gate0 s \<Longrightarrow> gate0 (step s e)"
proof (cases e)
  case CallStart
  assume "gate0 s"
  with CallStart show ?thesis
    by (auto simp: gate0_def start_def Let_def nth_append)
next
  case CallStop
  assume "gate0 s"
  with CallStop show ?thesis
    by (auto simp: gate0_def stop_def split: child_ref.splits)
next
  case (Data p r)
  assume "gate0 s"
  with Data show ?thesis
    by (auto simp: gate0_def timers_on_data timers_on_started nth_append)
next
  case (StreamError p b)
  assume "gate0 s"
  with StreamError show ?thesis
    by (auto simp: gate0_def on_stream_error_def)
next
  case (Exit p code signal)
  assume "gate0 s"
  with Exit show ?thesis
    by (auto simp: gate0_def on_exit_def Let_def)
next
  case (TimerFires k)
  assume "gate0 s"
  with TimerFires show ?thesis
    by (auto simp: gate0_def on_timer_def startup_timeout_def Let_def nth_update_if
        split: timer_action.splits child_ref.splits)
qed

lemma gate0_trace: "gate0 s \<Longrightarrow> gate0 (exec s evs)"
  by (induction evs arbitrary: s) (simp_all add: exec_Cons gate0_step)

lemma ready_disarms:
  assumes "gate0 s" and "p < length (procs s)" and "is_started r"
  shows "0 < length (timers (step s (Data p r))) \<and>
         t_status (timers (step s (Data p r)) ! 0) \<noteq> Armed"
proof -
  from assms(1) have g: "starts s ! 0 \<in> set (starts s)" "g_timer (starts s ! 0) = 0"
    "0 < length (timers s)"
    by (simp_all add: gate0_def)
  from status_clear_timers_gate [OF g(1), of "timers s"] g(2,3)
  have "t_status (foldl (\<lambda>ts g. clear_timer (g_timer g) ts) (timers s) (starts s) ! 0) \<noteq> Armed"
    by simp
  with assms(2,3) g(3) show ?thesis
    by (simp add: timers_on_data timers_on_started nth_append)
qed

lemma on_timer_disarmed:
  "t_status (timers s ! t) \<noteq> Armed \<Longrightarrow> on_timer t s = s"
  by (simp add: on_timer_def)

lemma starting_gate0: "starting T s \<Longrightarrow> gate0 s"
  by (simp add: starting_def gate0_def)

lemma exit_of_only_child:
  "\<not> running s \<Longrightarrow> \<forall>q. alive s q \<longrightarrow> q = k \<Longrightarrow> alive s p \<Longrightarrow>
   \<not> alive (step s (Exit p code signal)) q"
  by (auto simp: alive_def on_exit_def Let_def nth_update_if split: if_splits)

text \<open>
  Claim C5.  Take a newly constructed supervisor and call \<^verbatim>\<open>start()\<close>.

  First part: if no readiness record is decoded before the startup timer runs out
  (the child may log other records, and may crash and be respawned meanwhile), then
  the timer's delay is the configured timeout, 1000 when none was given; the promise
  is rejected with ``timed out''; \<^verbatim>\<open>running\<close> is false and \<^verbatim>\<open>this.child\<close> is \<^verbatim>\<open>null\<close>;
  the only process that can still be alive is the last one spawned, and the last
  signal sent to it is \<^verbatim>\<open>SIGKILL\<close>; once its exit is delivered no process is alive;
  no process is spawned afterwards unless \<^verbatim>\<open>start()\<close> is called again; and nothing
  that happens later, a readiness record included, changes the rejected promise.

  Second part: if a readiness record is decoded first, the startup timer has been
  cleared, and its running out changes nothing at all, whatever else happened in
  between.

  ``Has effect'' is read as an effect on the promise and on what the timer does; a
  readiness record decoded after the timeout is still handled as a log record.
\<close>

theorem startup_timeout_rejects:
  assumes "Engine_new env st sc = Inr s0"
  shows "(\<forall>evs. wf_trace s0 (CallStart # evs) \<and> (\<forall>e\<in>set evs. quiet e) \<longrightarrow>
            (let s = exec s0 (CallStart # evs @ [TimerFires 0])
             in t_delay (timers s ! 0) = or_nat (sc_startupTimeout sc) 1000 \<and>
                (sc_startupTimeout sc = None \<longrightarrow> t_delay (timers s ! 0) = 1000) \<and>
                g_promise (starts s ! 0) = Rejected ''timed out'' \<and>
                \<not> running s \<and>
                child s = Null \<and>
                (\<forall>p. alive s p \<longrightarrow>
                   p = length (procs s) - 1 \<and> last (kills (procs s ! p)) = ''SIGKILL'') \<and>
                (\<forall>p code signal q. alive s p \<longrightarrow> \<not> alive (step s (Exit p code signal)) q) \<and>
                (\<forall>evs'. CallStart \<notin> set evs' \<longrightarrow>
                   length (procs (exec s evs')) = length (procs s)) \<and>
                (\<forall>evs'. g_promise (starts (exec s evs') ! 0) = Rejected ''timed out''))) \<and>
         (\<forall>pre p r post.
            wf_trace s0 (CallStart # pre @ Data p r # post) \<and> is_started r \<longrightarrow>
            step (exec s0 (CallStart # pre @ Data p r # post)) (TimerFires 0) =
              exec s0 (CallStart # pre @ Data p r # post))"
proof (intro conjI allI impI)
  fix evs
  assume h: "wf_trace s0 (CallStart # evs) \<and> (\<forall>e\<in>set evs. quiet e)"
  define T where "T = or_nat (sc_startupTimeout sc) 1000"
  define a where "a = exec (step s0 CallStart) evs"
  define s where "s = step a (TimerFires 0)"
  have a: "starting T a"
    unfolding a_def T_def using h
    by (intro starting_trace starting_start [OF assms]) simp_all
  have s_eq: "exec s0 (CallStart # evs @ [TimerFires 0]) = s"
    by (simp add: s_def a_def exec_Cons exec_append)
  note t = starting_timeout [OF a, folded s_def]
  have len: "length (procs s) = length (procs a)"
    by (rule t)
  have only: "\<forall>q. alive s q \<longrightarrow> q = length (procs a) - 1"
    using t(7) by blast
  have settled: "0 < length (starts s)" "g_promise (starts s ! 0) \<noteq> Pending"
    using t(2,5) by simp_all
  have "t_delay (timers s ! 0) = or_nat (sc_startupTimeout sc) 1000"
    using t(1) by (simp add: T_def)
  moreover have "sc_startupTimeout sc = None \<longrightarrow> t_delay (timers s ! 0) = 1000"
    using t(1) by (simp add: T_def or_nat_def)
  moreover have "\<forall>p. alive s p \<longrightarrow>
      p = length (procs s) - 1 \<and> last (kills (procs s ! p)) = ''SIGKILL''"
    using t(7) by (simp add: len)
  moreover have "\<forall>p code signal q. alive s p \<longrightarrow> \<not> alive (step s (Exit p code signal)) q"
    using exit_of_only_child [OF t(3) only] by blast
  moreover have "\<forall>evs'. CallStart \<notin> set evs' \<longrightarrow>
      length (procs (exec s evs')) = length (procs s)"
    using stopped_trace [OF t(3)] by blast
  moreover have "\<forall>evs'. g_promise (starts (exec s evs') ! 0) = Rejected ''timed out''"
    using settled_trace [OF settled] t(2) by simp
  ultimately show "let s = exec s0 (CallStart # evs @ [TimerFires 0])
     in t_delay (timers s ! 0) = or_nat (sc_startupTimeout sc) 1000 \<and>
        (sc_startupTimeout sc = None \<longrightarrow> t_delay (timers s ! 0) = 1000) \<and>
        g_promise (starts s ! 0) = Rejected ''timed out'' \<and>
        \<not> running s \<and>
        child s = Null \<and>
        (\<forall>p. alive s p \<longrightarrow>
           p = length (procs s) - 1 \<and> last (kills (procs s ! p)) = ''SIGKILL'') \<and>
        (\<forall>p code signal q. alive s p \<longrightarrow> \<not> alive (step s (Exit p code signal)) q) \<and>
        (\<forall>evs'. CallStart \<notin> set evs' \<longrightarrow>
           length (procs (exec s evs')) = length (procs s)) \<and>
        (\<forall>evs'. g_promise (starts (exec s evs') ! 0) = Rejected ''timed out'')"
    unfolding Let_def s_eq using t(2,3,4) by blast
next
  fix pre p r post
  assume h: "wf_trace s0 (CallStart # pre @ Data p r # post) \<and> is_started r"
  define a where "a = exec (step s0 CallStart) pre"
  define b where "b = step a (Data p r)"
  define c where "c = exec b post"
  have c_eq: "exec s0 (CallStart # pre @ Data p r # post) = c"
    by (simp add: c_def b_def a_def exec_Cons exec_append)
  have "gate0 (step s0 CallStart)"
    using starting_start [OF assms] by (rule starting_gate0)
  then have a: "gate0 a"
    unfolding a_def by (rule gate0_trace)
  from h have "p < length (procs a)"
    by (simp add: wf_trace_append a_def)
  from ready_disarms [OF a this] h
  have "0 < length (timers b) \<and> t_status (timers b ! 0) \<noteq> Armed"
    by (simp add: b_def)
  then have "t_status (timers c ! 0) \<noteq> Armed"
    unfolding c_def using disarmed_trace by blast
  then show "step (exec s0 (CallStart # pre @ Data p r # post)) (TimerFires 0) =
      exec s0 (CallStart # pre @ Data p r # post)"
    unfolding c_eq by (simp add: on_timer_disarmed)
qed

theorem startup_timeout_rejects_witness:
  "t_delay (timers (exec demo [CallStart, Data 0 (rec_at ''info''), TimerFires 0]) ! 0) = 1000 \<and>
   g_promise (starts (exec demo [CallStart, Data 0 (rec_at ''info''), TimerFires 0]) ! 0) =
     Rejected ''timed out'' \<and>
   \<not> running (exec demo [CallStart, Data 0 (rec_at ''info''), TimerFires 0]) \<and>
   child (exec demo [CallStart, Data 0 (rec_at ''info''), TimerFires 0]) = Null \<and>
   step (exec demo [CallStart, Data 0 (ready_at ''127.0.0.1:54321'')]) (TimerFires 0) =
     exec demo [CallStart, Data 0 (ready_at ''127.0.0.1:54321'')]"
proof -
  have wf1: "wf_trace demo (CallStart # [Data 0 (rec_at ''info'')]) \<and>
      (\<forall>e\<in>set [Data 0 (rec_at ''info'')]. quiet e)"
    by (simp add: start_def demo_initial alive_def rec_at_def is_started_def)
  have wf2: "wf_trace demo (CallStart # [] @ Data 0 (ready_at ''127.0.0.1:54321'') # []) \<and>
      is_started (ready_at ''127.0.0.1:54321'')"
    by (simp add: start_def demo_initial alive_def)
  show ?thesis
    using startup_timeout_rejects [OF demo_constructed, THEN conjunct1, rule_format, OF wf1]
      startup_timeout_rejects [OF demo_constructed, THEN conjunct2, rule_format, OF wf2]
    by (simp add: Let_def error_sideload_def)
qed

section \<open>Calling \<^verbatim>\<open>start()\<close> twice\<close>

lemma running_start: "start s = Inr s' \<Longrightarrow> running s'"
  by (auto simp: start_def Let_def split: if_splits)

lemma running_step:
  assumes "running s" and "keeps_running s e"
  shows "running (step s e)"
proof (cases e)
  case CallStart
  with assms show ?thesis by (simp add: start_def)
next
  case (Exit p code signal)
  with assms show ?thesis by (simp add: on_exit_def Let_def)
next
  case (TimerFires t)
  with assms show ?thesis
    by (auto simp: on_timer_def Let_def split: timer_action.splits)
qed (use assms in \<open>simp_all add: on_stream_error_def\<close>)

lemma running_trace: "running s \<Longrightarrow> undisturbed s evs \<Longrightarrow> running (exec s evs)"
  by (induction evs arbitrary: s) (simp_all add: exec_Cons running_step)

text \<open>
  Claim C10.  After a \<^verbatim>\<open>start()\<close> that went through, and whatever happened since
  except a \<^verbatim>\<open>stop()\<close> or the running out of a startup timer, a call of \<^verbatim>\<open>start()\<close>
  throws the error ``Only call start() on an engine object once'' at once, and the
  supervisor is left exactly as it was: no process is spawned and no field changes.
\<close>

theorem start_twice_throws:
  assumes "start s0 = Inr s1" and "undisturbed s1 evs"
  shows "start (exec s1 evs) = Inl (Error ''Only call start() on an engine object once'') \<and>
         step (exec s1 evs) CallStart = exec s1 evs"
proof -
  have "running (exec s1 evs)"
    using running_start [OF assms(1)] assms(2) by (rule running_trace)
  then show ?thesis by (simp add: start_def)
qed

theorem start_twice_throws_witness:
  "start (exec (step demo CallStart) [Data 0 (rec_at ''info''), Exit 0 (Some 1) None]) =
     Inl (Error ''Only call start() on an engine object once'') \<and>
   step (exec (step demo CallStart) [Data 0 (rec_at ''info''), Exit 0 (Some 1) None]) CallStart =
     exec (step demo CallStart) [Data 0 (rec_at ''info''), Exit 0 (Some 1) None]"
proof -
  have s: "start demo = Inr (step demo CallStart)"
    by (simp add: start_def demo_initial)
  have u: "undisturbed (step demo CallStart) [Data 0 (rec_at ''info''), Exit 0 (Some 1) None]"
    by simp
  show ?thesis
    using start_twice_throws [OF s u] by simp
qed

end
